theory Spec2Isabelle
  imports Complex_Main
begin

section \<open>JavaScript values as the services see them\<close>

text \<open>
  The plan pipeline handles values of unknown shape: the reply of the completion
  endpoint after \<^verbatim>\<open>JSON.parse\<close>, and the parsed \<^verbatim>\<open>package.json\<close>. They are modelled
  as the values \<^verbatim>\<open>JSON.parse\<close> can build. A number is an IEEE double: every finite double
  is a rational, and a literal such as \<^verbatim>\<open>1e999\<close> parses to an infinity. An object is the
  list of its own enumerable properties in the order \<^verbatim>\<open>Object.keys\<close> enumerates them.
\<close>

datatype jsnum = NaN | Fin rat | PosInf | NegInf

datatype json =
    JNull
  | JBool bool
  | JNum jsnum
  | JStr string
  | JArr "json list"
  | JObj "(string \<times> json) list"

text \<open>
  Values that can be thrown and caught. \<open>APIError\<close> is the provider library's error
  class, with its \<^verbatim>\<open>status\<close> (absent when there was no HTTP response), \<^verbatim>\<open>message\<close> and
  \<^verbatim>\<open>code\<close>; \<open>TypeError\<close> and \<open>OtherError\<close> are instances of \<^verbatim>\<open>Error\<close> with their
  message. \<open>AIError\<close> is the plain object of the interface \<^verbatim>\<open>AIError\<close> (\<^verbatim>\<open>message\<close>,
  \<^verbatim>\<open>code\<close>, \<^verbatim>\<open>type\<close>, \<^verbatim>\<open>original\<close>), which is not an instance of \<^verbatim>\<open>Error\<close>;
  \<open>Thrown\<close> is any other value.
\<close>

datatype error_type = Authentication | Rate_limit | Bad_request | Network | Unknown

datatype thrown =
    APIError "nat option" string "string option"
  | TypeError string
  | OtherError string
  | AIError string "string option" error_type "thrown option"
  | Thrown json

text \<open>
  Library functions of the JavaScript runtime that the services call and that are not
  part of the repository are parameters of the model: \<^verbatim>\<open>JSON.parse\<close> (\<open>None\<close> is a
  \<^verbatim>\<open>SyntaxError\<close>), the conversion of a string to a number, the rendering of a number as
  a string, and \<^verbatim>\<open>path.join\<close>.
\<close>

record js_runtime =
  JSON_parse :: "string \<Rightarrow> json option"
  StringToNumber :: "string \<Rightarrow> jsnum"
  NumberToString :: "jsnum \<Rightarrow> string"
  path_join :: "string \<Rightarrow> string \<Rightarrow> string"

text \<open>The decimal numeral of a natural number: what a template literal prints for a
  non-negative integer below \<open>10\<^sup>2\<^sup>1\<close>, and the property key of an array index.\<close>

fun dec :: "nat \<Rightarrow> string" where
  "dec n = (if n < 10 then [''0123456789'' ! n]
            else dec (n div 10) @ [''0123456789'' ! (n mod 10)])"

declare dec.simps [simp del]

text \<open>Truthiness (\<^verbatim>\<open>if (v)\<close>, \<^verbatim>\<open>v && ...\<close>, \<^verbatim>\<open>v || ...\<close>).\<close>

fun truthy :: "json \<Rightarrow> bool" where
  "truthy JNull = False"
| "truthy (JBool b) = b"
| "truthy (JNum n) = (n \<noteq> NaN \<and> n \<noteq> Fin 0)"
| "truthy (JStr s) = (s \<noteq> [])"
| "truthy (JArr xs) = True"
| "truthy (JObj kvs) = True"

text \<open>\<^verbatim>\<open>typeof v === 'object'\<close> holds of \<^verbatim>\<open>null\<close>, arrays and objects.\<close>

fun typeof_object :: "json \<Rightarrow> bool" where
  "typeof_object JNull = True"
| "typeof_object (JArr xs) = True"
| "typeof_object (JObj kvs) = True"
| "typeof_object v = False"

text \<open>\<^verbatim>\<open>v && typeof v === 'object'\<close>: the test for an object-shaped value.\<close>

definition object_shaped :: "json \<Rightarrow> bool" where
  "object_shaped v = (truthy v \<and> typeof_object v)"

text \<open>The own enumerable properties of a value, as object spread and \<^verbatim>\<open>Object.keys\<close>
  see them: the entries of an object, the indexed elements of an array, the indexed
  characters of a string, nothing for a number or a boolean.\<close>

fun own_enumerable :: "json \<Rightarrow> (string \<times> json) list" where
  "own_enumerable (JObj kvs) = kvs"
| "own_enumerable (JArr xs) = zip (map dec [0..<length xs]) xs"
| "own_enumerable (JStr s) = zip (map dec [0..<length s]) (map (\<lambda>c. JStr [c]) s)"
| "own_enumerable v = []"

text \<open>A member read \<^verbatim>\<open>v.k\<close> on a value other than \<^verbatim>\<open>null\<close>; \<open>None\<close> is
  \<^verbatim>\<open>undefined\<close>. Arrays and strings also have \<^verbatim>\<open>length\<close>. The names the services
  read are not properties of the built-in prototypes.\<close>

definition js_get :: "json \<Rightarrow> string \<Rightarrow> json option" where
  "js_get v k =
     (case map_of (own_enumerable v) k of
        Some x \<Rightarrow> Some x
      | None \<Rightarrow>
          (case v of
             JArr xs \<Rightarrow> if k = ''length'' then Some (JNum (Fin (of_nat (length xs)))) else None
           | JStr s \<Rightarrow> if k = ''length'' then Some (JNum (Fin (of_nat (length s)))) else None
           | _ \<Rightarrow> None))"

text \<open>\<^verbatim>\<open>k in v\<close>, which the services only evaluate on values that passed
  \<^verbatim>\<open>v && typeof v === 'object'\<close>.\<close>

definition js_in :: "string \<Rightarrow> json \<Rightarrow> bool" where
  "js_in k v = (js_get v k \<noteq> None)"

text \<open>An indexed read \<^verbatim>\<open>v[i]\<close> with a numeric index on a value other than \<^verbatim>\<open>null\<close>.\<close>

fun js_index :: "json \<Rightarrow> nat \<Rightarrow> json option" where
  "js_index (JArr xs) i = (if i < length xs then Some (xs ! i) else None)"
| "js_index (JStr s) i = (if i < length s then Some (JStr [s ! i]) else None)"
| "js_index (JObj kvs) i = map_of kvs (dec i)"
| "js_index v i = None"

text \<open>\<^verbatim>\<open>Array.prototype.join\<close> on strings.\<close>

fun join :: "string \<Rightarrow> string list \<Rightarrow> string" where
  "join sep [] = []"
| "join sep [x] = x"
| "join sep (x # y # ys) = x @ sep @ join sep (y # ys)"

text \<open>The results of a list of conversions made from left to right: the first error
  ends them.\<close>

fun collect :: "(thrown + 'a) list \<Rightarrow> thrown + 'a list" where
  "collect [] = Inr []"
| "collect (Inl e # rs) = Inl e"
| "collect (Inr x # rs) = (case collect rs of Inl e \<Rightarrow> Inl e | Inr xs \<Rightarrow> Inr (x # xs))"

text \<open>
  \<^verbatim>\<open>String(v)\<close>. A plain object is converted by its \<^verbatim>\<open>toString\<close> and then its
  \<^verbatim>\<open>valueOf\<close>. An object built by \<^verbatim>\<open>JSON.parse\<close> with no \<^verbatim>\<open>toString\<close> key of its own
  inherits the one that prints \<^verbatim>\<open>[object Object]\<close>. With a \<^verbatim>\<open>toString\<close> key of its own,
  whose value is never a function, that method is skipped, \<^verbatim>\<open>valueOf\<close> (its own, not a
  function, or the inherited one, which returns the object) gives no primitive, and the
  conversion throws a \<^verbatim>\<open>TypeError\<close>. An array joins the conversions of its elements with
  commas, \<^verbatim>\<open>null\<close> elements printing as the empty string, and throws when the conversion
  of an element throws.
\<close>

fun js_String :: "js_runtime \<Rightarrow> json \<Rightarrow> thrown + string" where
  "js_String rt JNull = Inr ''null''"
| "js_String rt (JBool b) = Inr (if b then ''true'' else ''false'')"
| "js_String rt (JNum n) = Inr (NumberToString rt n)"
| "js_String rt (JStr s) = Inr s"
| "js_String rt (JArr xs) =
     (case collect (map (\<lambda>x. if x = JNull then Inr [] else js_String rt x) xs) of
        Inl e \<Rightarrow> Inl e
      | Inr ss \<Rightarrow> Inr (join '','' ss))"
| "js_String rt (JObj kvs) =
     (if map_of kvs ''toString'' \<noteq> None
      then Inl (TypeError ''Cannot convert object to primitive value'')
      else Inr ''[object Object]'')"

text \<open>\<^verbatim>\<open>ToNumber(v)\<close>, as the relational operator applies it to its right operand. An
  array or an object is first converted to a primitive, which comes from the same
  \<^verbatim>\<open>toString\<close> and throws in the same cases.\<close>

fun ToNumber :: "js_runtime \<Rightarrow> json \<Rightarrow> thrown + jsnum" where
  "ToNumber rt JNull = Inr (Fin 0)"
| "ToNumber rt (JBool b) = Inr (Fin (if b then 1 else 0))"
| "ToNumber rt (JNum n) = Inr n"
| "ToNumber rt v =
     (case js_String rt v of Inl e \<Rightarrow> Inl e | Inr s \<Rightarrow> Inr (StringToNumber rt s))"

text \<open>\<^verbatim>\<open>i < v\<close> for a loop counter \<open>i\<close> and the value \<open>v\<close> of a \<^verbatim>\<open>length\<close> read
  (\<^verbatim>\<open>undefined\<close> converts to \<^verbatim>\<open>NaN\<close>, and a comparison with \<^verbatim>\<open>NaN\<close> is false).\<close>

definition js_less :: "js_runtime \<Rightarrow> nat \<Rightarrow> json option \<Rightarrow> thrown + bool" where
  "js_less rt i v =
     (case v of
        None \<Rightarrow> Inr False
      | Some x \<Rightarrow>
          (case ToNumber rt x of
             Inl e \<Rightarrow> Inl e
           | Inr NaN \<Rightarrow> Inr False
           | Inr (Fin q) \<Rightarrow> Inr (of_nat i < q)
           | Inr PosInf \<Rightarrow> Inr True
           | Inr NegInf \<Rightarrow> Inr False))"

text \<open>\<^verbatim>\<open>s.includes(pat)\<close>.\<close>

fun str_includes :: "string \<Rightarrow> string \<Rightarrow> bool" where
  "str_includes [] pat = (pat = [])"
| "str_includes (c # cs) pat = (take (length pat) (c # cs) = pat \<or> str_includes cs pat)"

section \<open>The completion client (AIService)\<close>

text \<open>The \<^verbatim>\<open>type\<close> of a thrown \<^verbatim>\<open>AIError\<close>.\<close>

fun error_kind :: "thrown \<Rightarrow> error_type option" where
  "error_kind (AIError m c t orig) = Some t"
| "error_kind e = None"

text \<open>\<^verbatim>\<open>error instanceof Error ? error.message : String(error)\<close>. The plain object of an
  \<^verbatim>\<open>AIError\<close> has no \<^verbatim>\<open>toString\<close> key.\<close>

fun message_or_String :: "js_runtime \<Rightarrow> thrown \<Rightarrow> thrown + string" where
  "message_or_String rt (APIError st m c) = Inr m"
| "message_or_String rt (TypeError m) = Inr m"
| "message_or_String rt (OtherError m) = Inr m"
| "message_or_String rt (AIError m c t orig) = Inr ''[object Object]''"
| "message_or_String rt (Thrown v) = js_String rt v"

text \<open>\<^verbatim>\<open>AIService.handleError\<close>: \<open>Inr\<close> is the \<^verbatim>\<open>AIError\<close> it returns, \<open>Inl\<close> what it
  throws itself, when the conversion of a thrown value to a string throws.\<close>

fun handleError :: "js_runtime \<Rightarrow> thrown \<Rightarrow> thrown + thrown" where
  "handleError rt (APIError st m c) =
     (if st = Some 401 then
        Inr (AIError ''Invalid API key. Please check your CodeCompass API key in settings.''
               (Some ''AUTH_ERROR'') Authentication (Some (APIError st m c)))
      else if st = Some 429 then
        Inr (AIError ''Rate limit exceeded. Please wait a moment and try again.''
               (Some ''RATE_LIMIT'') Rate_limit (Some (APIError st m c)))
      else if st = Some 400 then
        Inr (AIError ''Invalid request. Please check your configuration.''
               (Some ''BAD_REQUEST'') Bad_request (Some (APIError st m c)))
      else
        Inr (AIError (''API error ('' @ (case st of None \<Rightarrow> ''undefined'' | Some n \<Rightarrow> dec n)
                        @ ''): '' @ m)
               c Unknown (Some (APIError st m c))))"
| "handleError rt e =
     (if (case e of TypeError m \<Rightarrow> str_includes m ''fetch'' | _ \<Rightarrow> False) then
        Inr (AIError
               ''Network error: Unable to reach the AI service. Check your connection and endpoint.''
               (Some ''NETWORK_ERROR'') Network (Some e))
      else
        (case message_or_String rt e of
           Inl thrown_by_String \<Rightarrow> Inl thrown_by_String
         | Inr text \<Rightarrow> Inr (AIError (''Unexpected error: '' @ text) None Unknown (Some e))))"

text \<open>\<^verbatim>\<open>AIService.createError\<close>\<close>

definition createError :: "string \<Rightarrow> thrown" where
  "createError m = AIError m None Unknown None"

text \<open>
  The reply of \<^verbatim>\<open>client.chat.completions.create\<close>: a list of choices, each with an
  optional message whose \<^verbatim>\<open>content\<close> is a string or absent.
\<close>

record chat_message =
  message_content :: "string option"

record choice =
  message :: "chat_message option"

record completion =
  choices :: "choice list"

text \<open>\<^verbatim>\<open>response.choices[0]?.message?.content\<close>\<close>

definition first_content :: "completion \<Rightarrow> string option" where
  "first_content response =
     (case choices response of
        [] \<Rightarrow> None
      | c # cs \<Rightarrow> (case message c of None \<Rightarrow> None | Some m \<Rightarrow> message_content m))"

text \<open>
  \<^verbatim>\<open>AIService.generatePlan\<close>, given the outcome of the request. The \<^verbatim>\<open>throw\<close> for a
  reply without content is inside the \<^verbatim>\<open>try\<close> block, so the handler passes that error
  through \<open>handleError\<close> as well. The handler throws what \<open>handleError\<close> returns, or what
  \<open>handleError\<close> throws.
\<close>

definition ai_try :: "js_runtime \<Rightarrow> thrown + completion \<Rightarrow> thrown + json" where
  "ai_try rt outcome =
     (case outcome of
        Inl e \<Rightarrow> Inl e
      | Inr response \<Rightarrow>
          (case first_content response of
             None \<Rightarrow> Inl (createError ''No response content received from AI service'')
           | Some text \<Rightarrow>
               if text = [] then
                 Inl (createError ''No response content received from AI service'')
               else
                 (case JSON_parse rt text of
                    Some parsed \<Rightarrow> Inr parsed
                  | None \<Rightarrow> Inr (JObj [(''raw'', JStr text)]))))"

definition ai_generatePlan :: "js_runtime \<Rightarrow> thrown + completion \<Rightarrow> thrown + json" where
  "ai_generatePlan rt outcome =
     (case ai_try rt outcome of
        Inl e \<Rightarrow>
          (case handleError rt e of
             Inl thrown_by_handleError \<Rightarrow> Inl thrown_by_handleError
           | Inr aiError \<Rightarrow> Inl aiError)
      | Inr v \<Rightarrow> Inr v)"

section \<open>The plan service (PlanService)\<close>

subsection \<open>Identifiers and timestamps\<close>

text \<open>
  \<^verbatim>\<open>generateId\<close> concatenates the clock and a random number in base 36, and
  \<^verbatim>\<open>new Date()\<close> reads the clock. Both are modelled by an oracle that fixes the successive
  results, and a state that counts the calls made so far.
\<close>

record sys_oracle =
  ids :: "nat \<Rightarrow> string"
  dates :: "nat \<Rightarrow> nat"

record sys_state =
  ids_used :: nat
  dates_used :: nat

definition generateId :: "sys_oracle \<Rightarrow> sys_state \<Rightarrow> string \<times> sys_state" where
  "generateId orc st = (ids orc (ids_used st), st\<lparr>ids_used := Suc (ids_used st)\<rparr>)"

definition new_Date :: "sys_oracle \<Rightarrow> sys_state \<Rightarrow> nat \<times> sys_state" where
  "new_Date orc st = (dates orc (dates_used st), st\<lparr>dates_used := Suc (dates_used st)\<rparr>)"

subsection \<open>Plans\<close>

datatype plan_status = Draft | Active | Completed | Failed

record PlanStep =
  step_id :: string
  description :: string
  files :: "json list"
  order :: nat

record Plan =
  plan_id :: string
  task :: string
  steps :: "PlanStep list"
  createdAt :: nat
  status :: plan_status

subsection \<open>parsePlanResponse\<close>

text \<open>The step built from the element \<open>step\<close> read at index \<open>i\<close>:
  \<^verbatim>\<open>'description' in step ? String(step.description) : `Step ${i + 1}`\<close> and
  \<^verbatim>\<open>'files' in step && Array.isArray(step.files) ? step.files : []\<close>.\<close>

definition step_description :: "js_runtime \<Rightarrow> nat \<Rightarrow> json \<Rightarrow> thrown + string" where
  "step_description rt i step =
     (if js_in ''description'' step then
        (case js_get step ''description'' of
           Some d \<Rightarrow> js_String rt d
         | None \<Rightarrow> Inr ''undefined'')
      else Inr (''Step '' @ dec (i + 1)))"

definition step_files :: "json \<Rightarrow> json list" where
  "step_files step =
     (if js_in ''files'' step then
        (case js_get step ''files'' of Some (JArr fs) \<Rightarrow> fs | _ \<Rightarrow> [])
      else [])"

text \<open>
  The body of the loop: \<^verbatim>\<open>if (step && typeof step === 'object') steps.push({...})\<close>, where
  \<open>step\<close> is \<^verbatim>\<open>data.steps[i]\<close> (\<open>None\<close> when that is \<^verbatim>\<open>undefined\<close>). The object literal
  draws the identifier first and converts the description next; when that conversion
  throws, the identifier is used up and nothing is pushed.
\<close>

definition push_step ::
  "js_runtime \<Rightarrow> sys_oracle \<Rightarrow> nat \<Rightarrow> json option \<Rightarrow> PlanStep list \<times> sys_state
     \<Rightarrow> (thrown + PlanStep list) \<times> sys_state" where
  "push_step rt orc i step acc =
     (case step of
        None \<Rightarrow> (Inr (fst acc), snd acc)
      | Some v \<Rightarrow>
          if object_shaped v then
            (case generateId orc (snd acc) of
               (ident, st') \<Rightarrow>
                 (case step_description rt i v of
                    Inl e \<Rightarrow> (Inl e, st')
                  | Inr d \<Rightarrow>
                      (Inr (fst acc @ [\<lparr>step_id = ident, description = d,
                                         files = step_files v, order = i\<rparr>]), st')))
          else (Inr (fst acc), snd acc))"

text \<open>
  \<^verbatim>\<open>for (let i = 0; i < data.steps.length; i++)\<close>. Reading \<^verbatim>\<open>length\<close> of \<^verbatim>\<open>null\<close> (or of
  \<^verbatim>\<open>undefined\<close>) throws a \<^verbatim>\<open>TypeError\<close>, and so can the comparison and the body. The loop
  bound is whatever \<^verbatim>\<open>data.steps.length\<close> is, so the loop need not end (a \<^verbatim>\<open>length\<close> of
  infinity); \<open>None\<close> is the loop not returning. The counter is an unbounded natural
  number; the counter of the code is a double, which differs from it only above
  \<open>2\<^sup>5\<^sup>3\<close>, more than the length of any array.
\<close>

partial_function (option) steps_loop ::
  "js_runtime \<Rightarrow> sys_oracle \<Rightarrow> json option \<Rightarrow> nat \<Rightarrow> PlanStep list \<times> sys_state
     \<Rightarrow> ((thrown + PlanStep list) \<times> sys_state) option" where
  "steps_loop rt orc data_steps i acc =
     (case data_steps of
        None \<Rightarrow> Some (Inl (TypeError ''Cannot read properties of undefined (reading length)''), snd acc)
      | Some JNull \<Rightarrow> Some (Inl (TypeError ''Cannot read properties of null (reading length)''), snd acc)
      | Some sv \<Rightarrow>
          (case js_less rt i (js_get sv ''length'') of
             Inl e \<Rightarrow> Some (Inl e, snd acc)
           | Inr continue \<Rightarrow>
               if continue then
                 (case push_step rt orc i (js_index sv i) acc of
                    (Inl e, st') \<Rightarrow> Some (Inl e, st')
                  | (Inr stps, st') \<Rightarrow> steps_loop rt orc data_steps (Suc i) (stps, st'))
               else Some (Inr (fst acc), snd acc)))"

declare steps_loop.simps [code]

definition parsePlanResponse ::
  "js_runtime \<Rightarrow> sys_oracle \<Rightarrow> string \<Rightarrow> json \<Rightarrow> sys_state
     \<Rightarrow> ((thrown + Plan) \<times> sys_state) option" where
  "parsePlanResponse rt orc tsk response st =
     (case generateId orc st of (ident, st1) \<Rightarrow>
      case new_Date orc st1 of (date, st2) \<Rightarrow>
        let plan = \<lparr>plan_id = ident, task = tsk, steps = [], createdAt = date, status = Draft\<rparr>
        in
          if object_shaped response \<and> js_in ''steps'' response then
            (case steps_loop rt orc (js_get response ''steps'') 0 ([], st2) of
               None \<Rightarrow> None
             | Some (Inl e, st3) \<Rightarrow> Some (Inl e, st3)
             | Some (Inr stps, st3) \<Rightarrow>
                 Some (Inr (plan\<lparr>steps := stps,
                                 status := (if length stps > 0 then Active else Draft)\<rparr>), st3))
          else Some (Inr plan, st2))"

subsection \<open>The workspace and the context\<close>

text \<open>
  What the editor offers to \<^verbatim>\<open>gatherContext\<close>: the root path of the workspace, the
  document of the active editor, the directory listing (names with their
  \<^verbatim>\<open>vscode.FileType\<close>, a number) and the reading of a file by path, both of which can
  fail.
\<close>

record text_document =
  fsPath :: string
  getText :: string
  languageId :: string

record workspace =
  rootPath :: "string option"
  activeTextEditor :: "text_document option"
  readDirectory :: "string \<Rightarrow> thrown + (string \<times> nat) list"
  readFile :: "string \<Rightarrow> thrown + string"

text \<open>\<^verbatim>\<open>vscode.FileType.Directory\<close>\<close>

definition FileType_Directory :: nat where
  "FileType_Directory = 2"

record gather_options =
  includeActiveFile :: "bool option"
  includeWorkspaceStructure :: "bool option"
  includeDependencies :: "bool option"

record active_file =
  path :: string
  content :: string
  language :: string

record dependency_maps =
  dependencies_map :: "json option"
  devDependencies_map :: "json option"

record Context =
  workspaceRoot :: "string option"
  activeFile :: "active_file option"
  workspaceStructure :: "string list option"
  techStack :: "string option"
  dependencies :: "dependency_maps option"

text \<open>\<^verbatim>\<open>options?.flag\<close> as a condition.\<close>

definition option_set :: "gather_options option \<Rightarrow> (gather_options \<Rightarrow> bool option) \<Rightarrow> bool" where
  "option_set options flag =
     (case options of None \<Rightarrow> False | Some opts \<Rightarrow> (case flag opts of None \<Rightarrow> False | Some b \<Rightarrow> b))"

text \<open>\<^verbatim>\<open>PlanService.getWorkspaceStructure\<close>\<close>

definition getWorkspaceStructure :: "workspace \<Rightarrow> string list" where
  "getWorkspaceStructure ws =
     (case rootPath ws of
        None \<Rightarrow> []
      | Some wsRoot \<Rightarrow>
          if wsRoot = [] then []
          else
            (case readDirectory ws wsRoot of
               Inl e \<Rightarrow> []
             | Inr folders \<Rightarrow>
                 map fst (filter (\<lambda>(name, type). type = FileType_Directory) folders)))"

text \<open>\<^verbatim>\<open>PlanService.detectTechStack\<close>. \<open>allDeps\<close> is the object
  \<^verbatim>\<open>{...pkgJson.dependencies, ...pkgJson.devDependencies}\<close>, where a later entry replaces an
  earlier one of the same name; each test \<^verbatim>\<open>if (allDeps.react)\<close> is a test of the value.\<close>

definition spread :: "json option \<Rightarrow> (string \<times> json) list" where
  "spread v = (case v of None \<Rightarrow> [] | Some x \<Rightarrow> own_enumerable x)"

definition allDeps :: "json \<Rightarrow> string \<Rightarrow> json option" where
  "allDeps pkgJson =
     map_of (spread (js_get pkgJson ''dependencies''))
       ++ map_of (spread (js_get pkgJson ''devDependencies''))"

definition truthy_at :: "(string \<Rightarrow> json option) \<Rightarrow> string \<Rightarrow> bool" where
  "truthy_at obj k = (case obj k of None \<Rightarrow> False | Some v \<Rightarrow> truthy v)"

definition detectTechStack :: "json \<Rightarrow> string" where
  "detectTechStack pkgJson =
     (let deps = allDeps pkgJson in
      if truthy_at deps ''react'' then ''React''
      else if truthy_at deps ''vue'' then ''Vue.js''
      else if truthy_at deps ''angular'' \<or> truthy_at deps ''@angular/core'' then ''Angular''
      else if truthy_at deps ''svelte'' then ''Svelte''
      else if truthy_at deps ''next'' then ''Next.js''
      else if truthy_at deps ''node'' then ''Node.js''
      else if truthy_at deps ''express'' then ''Express.js''
      else if truthy_at deps ''nest'' then ''NestJS''
      else if truthy_at deps ''typescript'' then ''TypeScript''
      else if truthy_at deps ''storybook'' then ''Storybook''
      else ''JavaScript/TypeScript'')"

text \<open>\<^verbatim>\<open>v || {}\<close>\<close>

definition or_empty :: "json option \<Rightarrow> json" where
  "or_empty v = (case v of None \<Rightarrow> JObj [] | Some x \<Rightarrow> if truthy x then x else JObj [])"

text \<open>
  \<^verbatim>\<open>PlanService.gatherContext\<close>, one definition for each of its three blocks. In the
  dependencies block the inner \<^verbatim>\<open>try\<close> swallows a failed read, a failed parse and the
  \<^verbatim>\<open>TypeError\<close> of reading \<^verbatim>\<open>dependencies\<close> of \<^verbatim>\<open>null\<close>; the two fields are assigned
  only after all three have succeeded.
\<close>

definition gather_activeFile :: "workspace \<Rightarrow> gather_options option \<Rightarrow> Context \<Rightarrow> Context" where
  "gather_activeFile ws options ctx =
     (if option_set options includeActiveFile then
        (case activeTextEditor ws of
           None \<Rightarrow> ctx
         | Some document \<Rightarrow>
             ctx\<lparr>activeFile := Some \<lparr>path = fsPath document, content = getText document,
                                     language = languageId document\<rparr>\<rparr>)
      else ctx)"

definition gather_workspaceStructure ::
  "workspace \<Rightarrow> gather_options option \<Rightarrow> Context \<Rightarrow> Context" where
  "gather_workspaceStructure ws options ctx =
     (if option_set options includeWorkspaceStructure then
        ctx\<lparr>workspaceStructure := Some (getWorkspaceStructure ws)\<rparr>
      else ctx)"

definition gather_dependencies ::
  "js_runtime \<Rightarrow> workspace \<Rightarrow> gather_options option \<Rightarrow> Context \<Rightarrow> Context" where
  "gather_dependencies rt ws options ctx =
     (if option_set options includeDependencies then
        (case workspaceRoot ctx of
           None \<Rightarrow> ctx
         | Some wsRoot \<Rightarrow>
             if wsRoot = [] then ctx
             else
               let pkgJsonPath = path_join rt wsRoot ''package.json'' in
               if pkgJsonPath = [] then ctx
               else
                 (case readFile ws pkgJsonPath of
                    Inl e \<Rightarrow> ctx
                  | Inr pkgContent \<Rightarrow>
                      (case JSON_parse rt pkgContent of
                         None \<Rightarrow> ctx
                       | Some pkgJson \<Rightarrow>
                           if pkgJson = JNull then ctx
                           else
                             ctx\<lparr>dependencies := Some
                                   \<lparr>dependencies_map =
                                      Some (or_empty (js_get pkgJson ''dependencies'')),
                                    devDependencies_map =
                                      Some (or_empty (js_get pkgJson ''devDependencies''))\<rparr>,
                                 techStack := Some (detectTechStack pkgJson)\<rparr>)))
      else ctx)"

text \<open>
  The body of \<^verbatim>\<open>gatherContext\<close> is one \<^verbatim>\<open>try\<close> block whose handler logs and falls
  through to \<^verbatim>\<open>return context\<close>; the function has no other exit.
\<close>

definition gatherContext ::
  "js_runtime \<Rightarrow> workspace \<Rightarrow> string \<Rightarrow> gather_options option \<Rightarrow> thrown + Context" where
  "gatherContext rt ws tsk options =
     (let context = \<lparr>workspaceRoot = rootPath ws, activeFile = None, workspaceStructure = None,
                     techStack = None, dependencies = None\<rparr>
      in Inr (gather_dependencies rt ws options
               (gather_workspaceStructure ws options
                 (gather_activeFile ws options context))))"

subsection \<open>buildPrompt\<close>

text \<open>\<^verbatim>\<open>Object.keys(v)\<close> for a value that passed a truthiness test.\<close>

definition Object_keys :: "json \<Rightarrow> string list" where
  "Object_keys v = map fst (own_enumerable v)"

definition prompt_task :: "string \<Rightarrow> string" where
  "prompt_task tsk = ''Task: '' @ tsk @ ''\<newline>\<newline>''"

definition prompt_activeFile :: "Context \<Rightarrow> string" where
  "prompt_activeFile context =
     (case activeFile context of
        None \<Rightarrow> []
      | Some f \<Rightarrow>
          ''Current active file: '' @ path f @ ''\<newline>''
          @ ''Language: '' @ language f @ ''\<newline>\<newline>''
          @ ''--- File Content ---\<newline>'' @ content f @ ''\<newline>--- End File ---\<newline>\<newline>'')"

definition prompt_techStack :: "Context \<Rightarrow> string" where
  "prompt_techStack context =
     (case techStack context of
        None \<Rightarrow> []
      | Some label \<Rightarrow>
          if label = [] then [] else ''Tech Stack: '' @ label @ ''\<newline>\<newline>'')"

definition prompt_dependencies :: "Context \<Rightarrow> string" where
  "prompt_dependencies context =
     (case dependencies context of
        None \<Rightarrow> []
      | Some d \<Rightarrow>
          (case dependencies_map d of
             None \<Rightarrow> []
           | Some v \<Rightarrow>
               if truthy v then
                 (let deps = Object_keys v in
                  ''Dependencies: '' @ join '', '' (take 10 deps)
                  @ (if length deps > 10 then ''...'' else []) @ ''\<newline>\<newline>'')
               else []))"

definition buildPrompt :: "string \<Rightarrow> Context \<Rightarrow> string" where
  "buildPrompt tsk context =
     prompt_task tsk @ prompt_activeFile context @ prompt_techStack context
     @ prompt_dependencies context"

subsection \<open>generatePlan\<close>

text \<open>
  \<^verbatim>\<open>PlanService.generatePlan\<close>. \<open>create\<close> is the outcome of the completion request for a
  prompt. The handler builds the failed plan from the state the \<^verbatim>\<open>try\<close> block left:
  an identifier and a date that \<open>parsePlanResponse\<close> drew before it threw are used up.
\<close>

definition failed_plan :: "sys_oracle \<Rightarrow> string \<Rightarrow> sys_state \<Rightarrow> Plan \<times> sys_state" where
  "failed_plan orc tsk st =
     (case generateId orc st of (ident, st1) \<Rightarrow>
      case new_Date orc st1 of (date, st2) \<Rightarrow>
        (\<lparr>plan_id = ident, task = tsk, steps = [], createdAt = date, status = Failed\<rparr>, st2))"

definition generatePlan_try ::
  "js_runtime \<Rightarrow> sys_oracle \<Rightarrow> workspace \<Rightarrow> (string \<Rightarrow> thrown + completion) \<Rightarrow> string
     \<Rightarrow> gather_options option \<Rightarrow> sys_state \<Rightarrow> ((thrown + Plan) \<times> sys_state) option" where
  "generatePlan_try rt orc ws create tsk options st =
     (case gatherContext rt ws tsk options of
        Inl e \<Rightarrow> Some (Inl e, st)
      | Inr context \<Rightarrow>
          let prompt = buildPrompt tsk context in
          (case ai_generatePlan rt (create prompt) of
             Inl e \<Rightarrow> Some (Inl e, st)
           | Inr response \<Rightarrow> parsePlanResponse rt orc tsk response st))"

definition generatePlan ::
  "js_runtime \<Rightarrow> sys_oracle \<Rightarrow> workspace \<Rightarrow> (string \<Rightarrow> thrown + completion) \<Rightarrow> string
     \<Rightarrow> gather_options option \<Rightarrow> sys_state \<Rightarrow> ((thrown + Plan) \<times> sys_state) option" where
  "generatePlan rt orc ws create tsk options st =
     (case generatePlan_try rt orc ws create tsk options st of
        None \<Rightarrow> None
      | Some (Inr parsedPlan, st') \<Rightarrow> Some (Inr parsedPlan, st')
      | Some (Inl error, st') \<Rightarrow>
          (case failed_plan orc tsk st' of (plan, st'') \<Rightarrow> Some (Inr plan, st'')))"

section \<open>Notions used in the statements\<close>

text \<open>One pass of the loop over an array \<open>xs\<close>, which does nothing once a pass has thrown,
  and the indices below \<open>k\<close> whose element is object-shaped.\<close>

definition loop_body ::
  "js_runtime \<Rightarrow> sys_oracle \<Rightarrow> json list \<Rightarrow> (thrown + PlanStep list) \<times> sys_state \<Rightarrow> nat
     \<Rightarrow> (thrown + PlanStep list) \<times> sys_state" where
  "loop_body rt orc xs r j =
     (case fst r of
        Inl e \<Rightarrow> r
      | Inr stps \<Rightarrow> push_step rt orc j (Some (xs ! j)) (stps, snd r))"

definition object_indices :: "json list \<Rightarrow> nat \<Rightarrow> nat list" where
  "object_indices xs k = filter (\<lambda>j. object_shaped (xs ! j)) [0..<k]"

text \<open>
  The values that \<^verbatim>\<open>String\<close> converts without throwing: no object with a \<^verbatim>\<open>toString\<close> key
  of its own, and no array with such an element. The elements of a \<^verbatim>\<open>steps\<close> array have
  plain descriptions when the description of every object-shaped element, if it has
  one, is such a value.
\<close>

fun stringifiable :: "json \<Rightarrow> bool" where
  "stringifiable (JObj kvs) = (map_of kvs ''toString'' = None)"
| "stringifiable (JArr xs) = (\<forall>x \<in> set xs. stringifiable x)"
| "stringifiable v = True"

definition plain_descriptions :: "json list \<Rightarrow> bool" where
  "plain_descriptions xs =
     (\<forall>x \<in> set xs. object_shaped x \<longrightarrow>
        (case js_get x ''description'' of None \<Rightarrow> True | Some d \<Rightarrow> stringifiable d))"

text \<open>The names of the merged object \<open>allDeps\<close>.\<close>

definition merged_names :: "json \<Rightarrow> string set" where
  "merged_names pkgJson =
     fst ` (set (spread (js_get pkgJson ''dependencies''))
            \<union> set (spread (js_get pkgJson ''devDependencies'')))"

text \<open>
  Concrete runs: a runtime whose \<^verbatim>\<open>JSON.parse\<close> knows two texts, a source of identifiers
  and dates, a start state, a workspace with three entries and a given text of
  \<^verbatim>\<open>package.json\<close>, the options all set, a context that only has dependencies, and two
  outcomes of the completion request.
\<close>

definition example_runtime :: js_runtime where
  \<open>example_runtime =
     \<lparr>JSON_parse = (\<lambda>s. if s = ''{}'' then Some (JObj [])
                         else if s = ''{"steps": null}'' then Some (JObj [(''steps'', JNull)])
                         else None),
      StringToNumber = (\<lambda>s. NaN),
      NumberToString = (\<lambda>n. []),
      path_join = (\<lambda>a b. a @ ''/'' @ b)\<rparr>\<close>

definition example_oracle :: sys_oracle where
  "example_oracle = \<lparr>ids = (\<lambda>n. ''id'' @ dec n), dates = (\<lambda>n. 1000 + n)\<rparr>"

definition initial_state :: sys_state where
  "initial_state = \<lparr>ids_used = 0, dates_used = 0\<rparr>"

definition example_workspace :: "string \<Rightarrow> workspace" where
  "example_workspace manifest =
     \<lparr>rootPath = Some ''/w'', activeTextEditor = None,
      readDirectory = (\<lambda>p. Inr [(''src'', 2), (''README.md'', 1), (''lib'', 2)]),
      readFile = (\<lambda>p. if p = ''/w/package.json'' then Inr manifest
                       else Inl (OtherError ''ENOENT''))\<rparr>"

definition all_options :: "gather_options option" where
  "all_options = Some \<lparr>includeActiveFile = Some True, includeWorkspaceStructure = Some True,
                        includeDependencies = Some True\<rparr>"

definition example_context :: "(string \<times> json) list \<Rightarrow> Context" where
  "example_context kvs =
     \<lparr>workspaceRoot = None, activeFile = None, workspaceStructure = None, techStack = None,
      dependencies = Some \<lparr>dependencies_map = Some (JObj kvs),
                            devDependencies_map = Some (JObj [])\<rparr>\<rparr>"

definition eleven_dependencies :: "(string \<times> json) list" where
  "eleven_dependencies =
     [(''a'', JStr ''1''), (''b'', JStr ''1''), (''c'', JStr ''1''), (''d'', JStr ''1''),
      (''e'', JStr ''1''), (''f'', JStr ''1''), (''g'', JStr ''1''), (''h'', JStr ''1''),
      (''i'', JStr ''1''), (''j'', JStr ''1''), (''k'', JStr ''1'')]"

definition rate_limited :: "string \<Rightarrow> thrown + completion" where
  "rate_limited prompt = Inl (APIError (Some 429) ''Too Many Requests'' None)"

definition replies :: "string \<Rightarrow> string \<Rightarrow> thrown + completion" where
  "replies reply prompt =
     Inr \<lparr>choices = [\<lparr>message = Some \<lparr>message_content = Some reply\<rparr>\<rparr>]\<rparr>"

section \<open>Array indices are not property names\<close>

lemma dec_digits: "set (dec n) \<subseteq> set ''0123456789''"
proof (induction n rule: dec.induct)
  case (1 n)
  show ?case
  proof (cases "n < 10")
    case True
    then have "''0123456789'' ! n \<in> set ''0123456789''" by (intro nth_mem) simp
    with True show ?thesis by (subst dec.simps) simp
  next
    case False
    have "''0123456789'' ! (n mod 10) \<in> set ''0123456789''" by (intro nth_mem) simp
    with False 1 show ?thesis by (subst dec.simps) simp
  qed
qed

lemma dec_neq_name: "c \<in> set k \<Longrightarrow> c \<notin> set ''0123456789'' \<Longrightarrow> dec n \<noteq> k"
  using dec_digits [of n] by auto

lemma map_of_indices_name:
  assumes "c \<in> set k" "c \<notin> set ''0123456789''"
  shows "map_of (zip (map dec [0..<n]) xs) k = None"
proof -
  have "k \<notin> set (map dec [0..<n])" using dec_neq_name [OF assms] by auto
  then have "k \<notin> fst ` set (zip (map dec [0..<n]) xs)"
    by (metis (no_types, lifting) imageE set_zip_leftD prod.collapse)
  then show ?thesis by (simp add: map_of_eq_None_iff)
qed

lemma js_get_array_length:
  "js_get (JArr xs) ''length'' = Some (JNum (Fin (of_nat (length xs))))"
  by (simp add: js_get_def map_of_indices_name [of "CHR ''l''"])

lemma js_get_array_description: "js_get (JArr xs) ''description'' = None"
  by (simp add: js_get_def map_of_indices_name [of "CHR ''d''"])

lemma js_get_array_files: "js_get (JArr xs) ''files'' = None"
  by (simp add: js_get_def map_of_indices_name [of "CHR ''f''"])

lemma js_less_array_length:
  "js_less rt i (js_get (JArr xs) ''length'') = Inr (i < length xs)"
  by (simp add: js_less_def js_get_array_length)

section \<open>When the conversion to a string throws\<close>

lemma collect_isl: "isl (collect rs) \<longleftrightarrow> (\<exists>r \<in> set rs. isl r)"
proof (induction rs)
  case Nil
  show ?case by simp
next
  case (Cons r rs)
  then show ?case by (cases r) (auto split: sum.splits)
qed

lemma js_String_isl: "isl (js_String rt v) \<longleftrightarrow> \<not> stringifiable v"
proof (induction v)
  case (JArr xs)
  have "isl (js_String rt (JArr xs)) \<longleftrightarrow>
        isl (collect (map (\<lambda>x. if x = JNull then Inr [] else js_String rt x) xs))"
    by (simp split: sum.splits)
  also have "\<dots> \<longleftrightarrow> (\<exists>x \<in> set xs. x \<noteq> JNull \<and> isl (js_String rt x))"
    by (auto simp: collect_isl)
  also have "\<dots> \<longleftrightarrow> (\<exists>x \<in> set xs. x \<noteq> JNull \<and> \<not> stringifiable x)"
    using JArr by blast
  also have "\<dots> \<longleftrightarrow> (\<exists>x \<in> set xs. \<not> stringifiable x)"
    by (metis stringifiable.simps(3))
  finally show ?case by simp
qed simp_all

lemma js_String_returns: "stringifiable v \<Longrightarrow> \<exists>s. js_String rt v = Inr s"
  using js_String_isl [of rt v] by (cases "js_String rt v") auto

section \<open>The loop of parsePlanResponse over an array\<close>

text \<open>Over an array the loop ends, and its result is the fold of its body over the
  remaining indices.\<close>

lemma loop_body_thrown: "foldl (loop_body rt orc xs) (Inl e, st) js = (Inl e, st)"
  by (induction js) (simp_all add: loop_body_def)

lemma steps_loop_array:
  "i \<le> length xs \<Longrightarrow>
   steps_loop rt orc (Some (JArr xs)) i acc =
     Some (foldl (loop_body rt orc xs) (Inr (fst acc), snd acc) [i..<length xs])"
proof (induction "length xs - i" arbitrary: i acc)
  case 0
  then have "i = length xs" by simp
  then show ?case
    by (subst steps_loop.simps) (simp add: js_less_array_length)
next
  case (Suc d)
  then have lt: "i < length xs" and d: "d = length xs - Suc i" and le: "Suc i \<le> length xs"
    by simp_all
  obtain res st' where r: "push_step rt orc i (Some (xs ! i)) acc = (res, st')"
    by (cases "push_step rt orc i (Some (xs ! i)) acc")
  have first: "loop_body rt orc xs (Inr (fst acc), snd acc) i = (res, st')"
    using r by (simp add: loop_body_def)
  show ?case
  proof (cases res)
    case (Inl e)
    have "steps_loop rt orc (Some (JArr xs)) i acc = Some (Inl e, st')"
      using lt r Inl by (subst steps_loop.simps) (simp add: js_less_array_length)
    then show ?thesis
      using lt first Inl by (simp add: upt_conv_Cons loop_body_thrown)
  next
    case (Inr stps)
    have "steps_loop rt orc (Some (JArr xs)) i acc =
          steps_loop rt orc (Some (JArr xs)) (Suc i) (stps, st')"
      using lt r Inr by (subst steps_loop.simps) (simp add: js_less_array_length)
    also have "\<dots> = Some (foldl (loop_body rt orc xs) (Inr stps, st') [Suc i..<length xs])"
      using Suc.hyps(1) [OF d le, of "(stps, st')"] by simp
    finally show ?thesis
      using lt first Inr by (simp add: upt_conv_Cons)
  qed
qed

text \<open>What holds of the steps after the passes below \<open>k\<close>, when none of them threw.\<close>

lemma foldl_loop_body_returned:
  "foldl (loop_body rt orc xs) (Inr [], st) [0..<k] = (Inr stps, st') \<Longrightarrow>
   map order stps = object_indices xs k
   \<and> (\<forall>s \<in> set stps. step_description rt (order s) (xs ! order s) = Inr (description s)
                      \<and> files s = step_files (xs ! order s))"
proof (induction k arbitrary: stps st')
  case 0
  then show ?case by (simp add: object_indices_def)
next
  case (Suc k)
  obtain res s1 where r: "foldl (loop_body rt orc xs) (Inr [], st) [0..<k] = (res, s1)"
    by (cases "foldl (loop_body rt orc xs) (Inr [], st) [0..<k]")
  with Suc.prems have step: "loop_body rt orc xs (res, s1) k = (Inr stps, st')" by simp
  then obtain stps0 where res: "res = Inr stps0"
    by (cases res) (simp_all add: loop_body_def)
  note ih = Suc.IH [OF r [unfolded res]]
  show ?case
  proof (cases "object_shaped (xs ! k)")
    case False
    with step res have "stps = stps0" by (simp add: loop_body_def push_step_def)
    with ih False show ?thesis by (simp add: object_indices_def)
  next
    case True
    with step res obtain d where d: "step_description rt k (xs ! k) = Inr d"
      and stps: "stps = stps0 @ [\<lparr>step_id = ids orc (ids_used s1), description = d,
                                   files = step_files (xs ! k), order = k\<rparr>]"
      by (auto simp: loop_body_def push_step_def generateId_def split: sum.splits)
    from True have "object_indices xs (Suc k) = object_indices xs k @ [k]"
      by (simp add: object_indices_def)
    with ih d stps show ?thesis by auto
  qed
qed

lemma foldl_loop_body_returns:
  "\<forall>j < k. object_shaped (xs ! j) \<longrightarrow> (\<exists>d. step_description rt j (xs ! j) = Inr d) \<Longrightarrow>
   \<exists>stps st'. foldl (loop_body rt orc xs) (Inr [], st) [0..<k] = (Inr stps, st')"
proof (induction k)
  case 0
  show ?case by simp
next
  case (Suc k)
  then obtain stps0 s1 where r: "foldl (loop_body rt orc xs) (Inr [], st) [0..<k] = (Inr stps0, s1)"
    by auto
  then have last: "foldl (loop_body rt orc xs) (Inr [], st) [0..<Suc k] =
                   push_step rt orc k (Some (xs ! k)) (stps0, s1)"
    by (simp add: loop_body_def)
  show ?case
  proof (cases "object_shaped (xs ! k)")
    case False
    then show ?thesis unfolding last by (simp add: push_step_def)
  next
    case True
    with Suc.prems obtain d where "step_description rt k (xs ! k) = Inr d" by auto
    with True show ?thesis unfolding last by (simp add: push_step_def generateId_def)
  qed
qed

lemma step_description_returns:
  assumes "case js_get x ''description'' of None \<Rightarrow> True | Some d \<Rightarrow> stringifiable d"
  shows "\<exists>d. step_description rt i x = Inr d"
  using assms js_String_returns
  by (auto simp: step_description_def split: option.splits)

text \<open>The normalizer on an object with an array under \<^verbatim>\<open>steps\<close>: it ends, it returns a
  plan when the descriptions are plain, and a plan it returns has these steps.\<close>

lemma parsePlanResponse_array:
  assumes "response = JObj kvs" "map_of kvs ''steps'' = Some (JArr xs)"
  shows "parsePlanResponse rt orc tsk response st =
     (case foldl (loop_body rt orc xs)
             (Inr [], st\<lparr>ids_used := Suc (ids_used st), dates_used := Suc (dates_used st)\<rparr>)
             [0..<length xs] of
        (Inl e, st3) \<Rightarrow> Some (Inl e, st3)
      | (Inr stps, st3) \<Rightarrow>
          Some (Inr \<lparr>plan_id = ids orc (ids_used st), task = tsk, steps = stps,
                     createdAt = dates orc (dates_used st),
                     status = (if stps = [] then Draft else Active)\<rparr>, st3))"
proof -
  let ?st2 = "st\<lparr>ids_used := Suc (ids_used st), dates_used := Suc (dates_used st)\<rparr>"
  obtain res st3 where f: "foldl (loop_body rt orc xs) (Inr [], ?st2) [0..<length xs] = (res, st3)"
    by (cases "foldl (loop_body rt orc xs) (Inr [], ?st2) [0..<length xs]")
  have loop: "steps_loop rt orc (Some (JArr xs)) 0 ([], ?st2) = Some (res, st3)"
    using steps_loop_array [of 0 xs rt orc "([], ?st2)"] f by simp
  have guard: "object_shaped response" "js_in ''steps'' response"
    "js_get response ''steps'' = Some (JArr xs)"
    using assms by (simp_all add: object_shaped_def js_in_def js_get_def)
  show ?thesis
    unfolding f
    by (cases res)
      (simp_all add: parsePlanResponse_def generateId_def new_Date_def guard loop)
qed

lemma parsePlanResponse_array_returned:
  assumes "response = JObj kvs" "map_of kvs ''steps'' = Some (JArr xs)"
    and "parsePlanResponse rt orc tsk response st = Some (Inr p, st')"
  shows "map order (steps p) = object_indices xs (length xs)
     \<and> (\<forall>s \<in> set (steps p).
           step_description rt (order s) (xs ! order s) = Inr (description s)
           \<and> files s = step_files (xs ! order s))"
proof -
  let ?st2 = "st\<lparr>ids_used := Suc (ids_used st), dates_used := Suc (dates_used st)\<rparr>"
  obtain res st3 where f: "foldl (loop_body rt orc xs) (Inr [], ?st2) [0..<length xs] = (res, st3)"
    by (cases "foldl (loop_body rt orc xs) (Inr [], ?st2) [0..<length xs]")
  from assms(3) have "res = Inr (steps p)"
    unfolding parsePlanResponse_array [OF assms(1,2)] f by (cases res) auto
  with f foldl_loop_body_returned show ?thesis by blast
qed

lemma parsePlanResponse_array_returns:
  assumes "response = JObj kvs" "map_of kvs ''steps'' = Some (JArr xs)"
    and "plain_descriptions xs"
  shows "\<exists>p st'. parsePlanResponse rt orc tsk response st = Some (Inr p, st')"
proof -
  let ?st2 = "st\<lparr>ids_used := Suc (ids_used st), dates_used := Suc (dates_used st)\<rparr>"
  have "\<forall>j < length xs. object_shaped (xs ! j) \<longrightarrow> (\<exists>d. step_description rt j (xs ! j) = Inr d)"
    using assms(3) step_description_returns by (simp add: plain_descriptions_def)
  from foldl_loop_body_returns [OF this, of orc ?st2]
  obtain stps st3 where
    "foldl (loop_body rt orc xs) (Inr [], ?st2) [0..<length xs] = (Inr stps, st3)" by blast
  then show ?thesis
    unfolding parsePlanResponse_array [OF assms(1,2)] by simp
qed

lemma parsePlanResponse_array_ends:
  assumes "response = JObj kvs" "map_of kvs ''steps'' = Some (JArr xs)"
  shows "\<exists>r. parsePlanResponse rt orc tsk response st = Some r"
  unfolding parsePlanResponse_array [OF assms]
  by (auto split: prod.splits sum.splits)

lemma status_of_steps:
  assumes "parsePlanResponse rt orc tsk response st = Some (Inr p, st')"
  shows "status p = (if steps p = [] then Draft else Active)"
  using assms
  by (auto simp: parsePlanResponse_def generateId_def new_Date_def Let_def
      split: if_splits option.splits sum.splits prod.splits)

section \<open>The completion client\<close>

text \<open>The kinds that \<open>handleError\<close> gives: by status for an \<open>APIError\<close> (and \<open>Unknown\<close> for
  one without status, which prints as \<^verbatim>\<open>undefined\<close>), \<open>Network\<close> for a \<open>TypeError\<close> whose
  message mentions \<^verbatim>\<open>fetch\<close>, and \<open>Unknown\<close> with the message of the error otherwise. It
  returns an \<^verbatim>\<open>AIError\<close> for every instance of \<^verbatim>\<open>Error\<close> and for every plain \<^verbatim>\<open>AIError\<close>.\<close>

lemma handleError_classification:
  "handleError rt (APIError (Some 401) m c) =
     Inr (AIError ''Invalid API key. Please check your CodeCompass API key in settings.''
            (Some ''AUTH_ERROR'') Authentication (Some (APIError (Some 401) m c)))"
  "handleError rt (APIError (Some 429) m c) =
     Inr (AIError ''Rate limit exceeded. Please wait a moment and try again.''
            (Some ''RATE_LIMIT'') Rate_limit (Some (APIError (Some 429) m c)))"
  "handleError rt (APIError (Some 400) m c) =
     Inr (AIError ''Invalid request. Please check your configuration.''
            (Some ''BAD_REQUEST'') Bad_request (Some (APIError (Some 400) m c)))"
  "n \<noteq> 401 \<Longrightarrow> n \<noteq> 429 \<Longrightarrow> n \<noteq> 400 \<Longrightarrow>
     handleError rt (APIError (Some n) m c) =
       Inr (AIError (''API error ('' @ dec n @ ''): '' @ m) c Unknown
              (Some (APIError (Some n) m c)))"
  "handleError rt (APIError None m c) =
     Inr (AIError (''API error (undefined): '' @ m) c Unknown (Some (APIError None m c)))"
  "str_includes m ''fetch'' \<Longrightarrow>
     handleError rt (TypeError m) =
       Inr (AIError
              ''Network error: Unable to reach the AI service. Check your connection and endpoint.''
              (Some ''NETWORK_ERROR'') Network (Some (TypeError m)))"
  "\<not> str_includes m ''fetch'' \<Longrightarrow>
     handleError rt (TypeError m) =
       Inr (AIError (''Unexpected error: '' @ m) None Unknown (Some (TypeError m)))"
  "handleError rt (OtherError m) =
     Inr (AIError (''Unexpected error: '' @ m) None Unknown (Some (OtherError m)))"
  by simp_all

lemma handleError_returns:
  assumes "\<forall>v. e \<noteq> Thrown v"
  shows "\<exists>m c t orig. handleError rt e = Inr (AIError m c t orig)"
  using assms by (cases e) (auto split: if_splits)

text \<open>
  C3. Every failure of a completion request is specified to get one kind, and any other
  exception the kind \<open>Unknown\<close> with the underlying message included. A reply without
  content is such a failure: its error is
  built by \<open>createError\<close> and thrown inside the \<^verbatim>\<open>try\<close> block, so the handler gives it to
  \<open>handleError\<close>; there it is a plain object, not an \<^verbatim>\<open>Error\<close>, and the message becomes
  \<^verbatim>\<open>Unexpected error: [object Object]\<close>. The text chosen for the failure survives only in
  the \<^verbatim>\<open>original\<close> field.
\<close>

theorem no_content_message_lost:
  "ai_generatePlan rt (Inr \<lparr>choices = []\<rparr>) =
     Inl (AIError ''Unexpected error: [object Object]'' None Unknown
            (Some (AIError ''No response content received from AI service'' None Unknown None)))"
  by (simp add: ai_generatePlan_def ai_try_def first_content_def createError_def)

text \<open>
  C4. A reply whose first choice has a non-empty text: if the text parses, the client
  returns the parsed value as it is; if it does not parse, the client returns the object
  with the text under \<^verbatim>\<open>raw\<close>. A reply with no text (no choice, no message, no content,
  or the empty string, which \<^verbatim>\<open>!content\<close> also rejects): the client raises an error of
  kind \<open>Unknown\<close>.
\<close>

theorem ai_generatePlan_reply:
  "(first_content response = Some text \<and> text \<noteq> [] \<longrightarrow>
      (\<forall>v. JSON_parse rt text = Some v \<longrightarrow> ai_generatePlan rt (Inr response) = Inr v)
      \<and> (JSON_parse rt text = None \<longrightarrow>
           ai_generatePlan rt (Inr response) = Inr (JObj [(''raw'', JStr text)])))
   \<and> (first_content response = None \<or> first_content response = Some [] \<longrightarrow>
        (\<exists>e. ai_generatePlan rt (Inr response) = Inl e \<and> error_kind e = Some Unknown))"
  by (auto simp: ai_generatePlan_def ai_try_def createError_def)

theorem ai_generatePlan_reply_witness:
  "ai_generatePlan example_runtime
     (Inr \<lparr>choices = [\<lparr>message = Some \<lparr>message_content = Some ''{}''\<rparr>\<rparr>]\<rparr>) = Inr (JObj [])
   \<and> ai_generatePlan example_runtime
     (Inr \<lparr>choices = [\<lparr>message = Some \<lparr>message_content = Some ''Sure!''\<rparr>\<rparr>]\<rparr>)
       = Inr (JObj [(''raw'', JStr ''Sure!'')])
   \<and> (\<exists>e. ai_generatePlan example_runtime (Inr \<lparr>choices = []\<rparr>) = Inl e
          \<and> error_kind e = Some Unknown)"
  using ai_generatePlan_reply [of "\<lparr>choices = [\<lparr>message = Some \<lparr>message_content = Some ''{}''\<rparr>\<rparr>]\<rparr>"
          "''{}''" example_runtime]
        ai_generatePlan_reply [of "\<lparr>choices = [\<lparr>message = Some \<lparr>message_content = Some ''Sure!''\<rparr>\<rparr>]\<rparr>"
          "''Sure!''" example_runtime]
        ai_generatePlan_reply [of "\<lparr>choices = []\<rparr>" "[]" example_runtime]
  by (simp add: first_content_def example_runtime_def)

section \<open>The context gatherer\<close>

text \<open>When every value in the two dependency maps is truthy, the test of a value is a
  test of the name, and the label is the first match in the fixed order.\<close>

lemma truthy_at_allDeps:
  assumes "\<forall>(k, v) \<in> set (spread (js_get pkgJson ''dependencies''))
                     \<union> set (spread (js_get pkgJson ''devDependencies'')). truthy v"
  shows "truthy_at (allDeps pkgJson) name \<longleftrightarrow>
         name \<in> fst ` (set (spread (js_get pkgJson ''dependencies''))
                      \<union> set (spread (js_get pkgJson ''devDependencies'')))"
proof -
  let ?a = "spread (js_get pkgJson ''dependencies'')"
  let ?b = "spread (js_get pkgJson ''devDependencies'')"
  have look: "allDeps pkgJson name =
                (case map_of ?b name of None \<Rightarrow> map_of ?a name | Some x \<Rightarrow> Some x)"
    by (simp add: allDeps_def map_add_def)
  show ?thesis
  proof (cases "map_of ?b name")
    case None
    note b = None
    show ?thesis
    proof (cases "map_of ?a name")
      case None
      with b have "name \<notin> fst ` set ?a" "name \<notin> fst ` set ?b"
        by (simp_all add: map_of_eq_None_iff)
      moreover have "\<not> truthy_at (allDeps pkgJson) name"
        using None b by (simp add: truthy_at_def look)
      ultimately show ?thesis by (simp add: image_Un)
    next
      case (Some v)
      then have m: "(name, v) \<in> set ?a" by (rule map_of_SomeD)
      with assms have "truthy v" by auto
      then have "truthy_at (allDeps pkgJson) name"
        using Some b by (simp add: truthy_at_def look)
      moreover have "name \<in> fst ` set ?a" using m by force
      ultimately show ?thesis by (simp add: image_Un)
    qed
  next
    case (Some v)
    then have m: "(name, v) \<in> set ?b" by (rule map_of_SomeD)
    with assms have "truthy v" by auto
    then have "truthy_at (allDeps pkgJson) name"
      using Some by (simp add: truthy_at_def look)
    moreover have "name \<in> fst ` set ?b" using m by force
    ultimately show ?thesis by (simp add: image_Un)
  qed
qed

lemma detectTechStack_first_match:
  assumes "\<forall>(k, v) \<in> set (spread (js_get pkgJson ''dependencies''))
                     \<union> set (spread (js_get pkgJson ''devDependencies'')). truthy v"
  shows "detectTechStack pkgJson =
     (let names = merged_names pkgJson in
      if ''react'' \<in> names then ''React''
      else if ''vue'' \<in> names then ''Vue.js''
      else if ''angular'' \<in> names \<or> ''@angular/core'' \<in> names then ''Angular''
      else if ''svelte'' \<in> names then ''Svelte''
      else if ''next'' \<in> names then ''Next.js''
      else if ''node'' \<in> names then ''Node.js''
      else if ''express'' \<in> names then ''Express.js''
      else if ''nest'' \<in> names then ''NestJS''
      else if ''typescript'' \<in> names then ''TypeScript''
      else if ''storybook'' \<in> names then ''Storybook''
      else ''JavaScript/TypeScript'')"
  unfolding detectTechStack_def Let_def merged_names_def truthy_at_allDeps [OF assms]
  by (rule refl)

text \<open>
  C6. The label is specified as the first match over the merged key set, so that a
  manifest with both \<^verbatim>\<open>react\<close> and \<^verbatim>\<open>vue\<close> is labelled React. The tests are tests of the
  values: in the manifest \<^verbatim>\<open>{"dependencies": {"react": "", "vue": "^3.4.0"}}\<close> the
  version of \<^verbatim>\<open>react\<close> is the empty string (any version, for the package manager), which
  is falsy, and the label is Vue.js.
\<close>

theorem detectTechStack_empty_version:
  "detectTechStack
     (JObj [(''dependencies'', JObj [(''react'', JStr []), (''vue'', JStr ''^3.4.0'')])])
   = ''Vue.js''"
  by (simp add: detectTechStack_def allDeps_def js_get_def spread_def truthy_at_def map_add_def)

lemma gatherContext_fields:
  "\<exists>c. gatherContext rt ws tsk options = Inr c
     \<and> workspaceRoot c = rootPath ws
     \<and> workspaceStructure c =
         (if option_set options includeWorkspaceStructure
          then Some (getWorkspaceStructure ws) else None)
     \<and> activeFile c =
         (if option_set options includeActiveFile
          then map_option
                 (\<lambda>doc. \<lparr>path = fsPath doc, content = getText doc, language = languageId doc\<rparr>)
                 (activeTextEditor ws)
          else None)"
  by (auto simp: gatherContext_def gather_dependencies_def gather_workspaceStructure_def
      gather_activeFile_def Let_def split: option.splits sum.splits)

lemma gather_dependencies_absent:
  assumes "dependencies ctx = None" "techStack ctx = None"
    and "\<not> option_set options includeDependencies
         \<or> (\<forall>r text. workspaceRoot ctx = Some r \<longrightarrow>
               readFile ws (path_join rt r ''package.json'') = Inr text \<longrightarrow>
               JSON_parse rt text = None)"
  shows "dependencies (gather_dependencies rt ws options ctx) = None
       \<and> techStack (gather_dependencies rt ws options ctx) = None"
  using assms
  by (auto simp: gather_dependencies_def Let_def split: option.splits sum.splits)

text \<open>
  C8. \<open>gatherContext\<close> returns a context for every workspace, task and options. The
  workspace structure and the active file are there exactly when their option is set
  (the structure being the listing of the directories). When the dependencies option
  is not set, or when every read of \<^verbatim>\<open>package.json\<close> at the root fails or gives a text
  that does not parse, \<^verbatim>\<open>dependencies\<close> and \<^verbatim>\<open>techStack\<close> are both absent. When the
  directory listing fails, the structure is the empty list. With no options at all,
  only \<^verbatim>\<open>workspaceRoot\<close> is set.
\<close>

theorem gatherContext_resilient:
  "\<exists>c. gatherContext rt ws tsk options = Inr c
     \<and> workspaceRoot c = rootPath ws
     \<and> workspaceStructure c =
         (if option_set options includeWorkspaceStructure
          then Some (getWorkspaceStructure ws) else None)
     \<and> activeFile c =
         (if option_set options includeActiveFile
          then map_option
                 (\<lambda>doc. \<lparr>path = fsPath doc, content = getText doc, language = languageId doc\<rparr>)
                 (activeTextEditor ws)
          else None)
     \<and> (\<not> option_set options includeDependencies \<longrightarrow>
          dependencies c = None \<and> techStack c = None)
     \<and> ((\<forall>r text. rootPath ws = Some r \<longrightarrow>
            readFile ws (path_join rt r ''package.json'') = Inr text \<longrightarrow>
            JSON_parse rt text = None) \<longrightarrow>
          dependencies c = None \<and> techStack c = None)
     \<and> ((\<forall>r folders. rootPath ws = Some r \<longrightarrow> readDirectory ws r \<noteq> Inr folders) \<longrightarrow>
          getWorkspaceStructure ws = [])
     \<and> (options = None \<longrightarrow>
          activeFile c = None \<and> workspaceStructure c = None
          \<and> dependencies c = None \<and> techStack c = None)"
proof -
  let ?c0 = "\<lparr>workspaceRoot = rootPath ws, activeFile = None, workspaceStructure = None,
               techStack = None, dependencies = None\<rparr>"
  let ?c2 = "gather_workspaceStructure ws options (gather_activeFile ws options ?c0)"
  let ?c = "gather_dependencies rt ws options ?c2"
  have c: "gatherContext rt ws tsk options = Inr ?c"
    by (simp add: gatherContext_def)
  have c2: "dependencies ?c2 = None" "techStack ?c2 = None" "workspaceRoot ?c2 = rootPath ws"
    by (simp_all add: gather_workspaceStructure_def gather_activeFile_def split: option.splits)
  have d1: "dependencies ?c = None \<and> techStack ?c = None"
    if "\<not> option_set options includeDependencies"
    using gather_dependencies_absent [OF c2(1) c2(2), of options ws rt] that by blast
  have d2: "dependencies ?c = None \<and> techStack ?c = None"
    if "\<forall>r text. rootPath ws = Some r \<longrightarrow>
            readFile ws (path_join rt r ''package.json'') = Inr text \<longrightarrow>
            JSON_parse rt text = None"
    using gather_dependencies_absent [OF c2(1) c2(2), of options ws rt] that c2(3) by simp
  have w: "getWorkspaceStructure ws = []"
    if "\<forall>r folders. rootPath ws = Some r \<longrightarrow> readDirectory ws r \<noteq> Inr folders"
    using that by (auto simp: getWorkspaceStructure_def split: option.splits sum.splits)
  have n: "\<not> option_set None flag" for flag
    by (simp add: option_set_def)
  from gatherContext_fields [of rt ws tsk options] c
  have f: "workspaceRoot ?c = rootPath ws"
    "workspaceStructure ?c =
         (if option_set options includeWorkspaceStructure
          then Some (getWorkspaceStructure ws) else None)"
    "activeFile ?c =
         (if option_set options includeActiveFile
          then map_option
                 (\<lambda>doc. \<lparr>path = fsPath doc, content = getText doc, language = languageId doc\<rparr>)
                 (activeTextEditor ws)
          else None)"
    by auto
  show ?thesis
    unfolding c using f d1 d2 w n by auto
qed

text \<open>A workspace whose \<^verbatim>\<open>package.json\<close> does not parse, all options set: the two
  directories are listed, and no dependencies and no tech stack are reported.\<close>

theorem gatherContext_resilient_witness:
  "\<exists>c. gatherContext example_runtime (example_workspace ''{ broken'') ''t'' all_options = Inr c
     \<and> workspaceStructure c = Some [''src'', ''lib'']
     \<and> dependencies c = None \<and> techStack c = None"
proof -
  let ?ws = "example_workspace ''{ broken''"
  have unparseable: "\<forall>r text. rootPath ?ws = Some r \<longrightarrow>
            readFile ?ws (path_join example_runtime r ''package.json'') = Inr text \<longrightarrow>
            JSON_parse example_runtime text = None"
    by (simp add: example_workspace_def example_runtime_def)
  have listing: "getWorkspaceStructure ?ws = [''src'', ''lib'']"
    by (simp add: getWorkspaceStructure_def example_workspace_def FileType_Directory_def)
  have opt: "option_set all_options includeWorkspaceStructure"
    by (simp add: option_set_def all_options_def)
  from gatherContext_resilient [of example_runtime ?ws "''t''" all_options] unparseable listing opt
  show ?thesis by auto
qed

section \<open>The prompt builder\<close>

lemma buildPrompt_split:
  "buildPrompt tsk ctx =
     buildPrompt tsk (ctx\<lparr>dependencies := None\<rparr>) @ prompt_dependencies ctx"
  by (simp add: buildPrompt_def prompt_activeFile_def prompt_techStack_def prompt_dependencies_def)

lemma example_context_base:
  "buildPrompt ''t'' ((example_context kvs)\<lparr>dependencies := None\<rparr>) = ''Task: t\<newline>\<newline>''"
  by (simp add: example_context_def buildPrompt_def prompt_task_def prompt_activeFile_def
      prompt_techStack_def prompt_dependencies_def)

text \<open>
  C7. For a context whose dependencies map is an object with the entries \<open>kvs\<close>, the
  prompt is the prompt without dependencies followed by the dependency line. With more
  than 10 entries the line lists the first 10 names, joined by a comma and a space, then
  three dots; with 10 entries or fewer it lists all the names and no dots. The versions
  do not appear.
\<close>

theorem buildPrompt_dependency_line:
  "dependencies ctx = Some d \<Longrightarrow> dependencies_map d = Some (JObj kvs) \<Longrightarrow>
   buildPrompt tsk ctx =
     buildPrompt tsk (ctx\<lparr>dependencies := None\<rparr>) @ prompt_dependencies ctx
   \<and> (length kvs > 10 \<longrightarrow>
        prompt_dependencies ctx =
          ''Dependencies: '' @ join '', '' (take 10 (map fst kvs)) @ ''...'' @ ''\<newline>\<newline>'')
   \<and> (length kvs \<le> 10 \<longrightarrow>
        prompt_dependencies ctx =
          ''Dependencies: '' @ join '', '' (map fst kvs) @ ''\<newline>\<newline>'')"
  using buildPrompt_split [of tsk ctx]
  by (simp add: prompt_dependencies_def Object_keys_def)

text \<open>Eleven dependencies \<^verbatim>\<open>a\<close> to \<^verbatim>\<open>k\<close>, and two dependencies.\<close>

theorem buildPrompt_dependency_line_witness:
  "buildPrompt ''t'' (example_context eleven_dependencies)
     = ''Task: t\<newline>\<newline>Dependencies: a, b, c, d, e, f, g, h, i, j...\<newline>\<newline>''
   \<and> buildPrompt ''t'' (example_context [(''a'', JStr ''1''), (''b'', JStr ''2'')])
     = ''Task: t\<newline>\<newline>Dependencies: a, b\<newline>\<newline>''"
proof
  let ?d = "\<lambda>kvs. \<lparr>dependencies_map = Some (JObj kvs), devDependencies_map = Some (JObj [])\<rparr>"
  have c: "dependencies (example_context kvs) = Some (?d kvs)" for kvs
    by (simp add: example_context_def)
  have m: "dependencies_map (?d kvs) = Some (JObj kvs)" for kvs by simp
  have n: "length eleven_dependencies > 10" by (simp add: eleven_dependencies_def)
  have names: "join '', '' (take 10 (map fst eleven_dependencies)) = ''a, b, c, d, e, f, g, h, i, j''"
    by (simp add: eleven_dependencies_def)
  from buildPrompt_dependency_line [OF c [of eleven_dependencies] m [of eleven_dependencies], of "''t''"] n
  have "buildPrompt ''t'' (example_context eleven_dependencies) =
          ''Task: t\<newline>\<newline>'' @ ''Dependencies: '' @ join '', '' (take 10 (map fst eleven_dependencies))
            @ ''...'' @ ''\<newline>\<newline>''"
    by (simp only: example_context_base)
  then show "buildPrompt ''t'' (example_context eleven_dependencies)
     = ''Task: t\<newline>\<newline>Dependencies: a, b, c, d, e, f, g, h, i, j...\<newline>\<newline>''"
    by (simp only: names) simp
  let ?two = "[(''a'', JStr ''1''), (''b'', JStr ''2'')]"
  have n2: "length ?two \<le> 10" by simp
  from buildPrompt_dependency_line [OF c [of ?two] m [of ?two], of "''t''"] n2
  have "buildPrompt ''t'' (example_context ?two) =
          ''Task: t\<newline>\<newline>'' @ ''Dependencies: '' @ join '', '' (map fst ?two) @ ''\<newline>\<newline>''"
    by (simp only: example_context_base)
  then show "buildPrompt ''t'' (example_context ?two)
     = ''Task: t\<newline>\<newline>Dependencies: a, b\<newline>\<newline>''"
    by simp
qed

text \<open>
  C10. A context whose inner dependencies map is the empty object still gets the line
  \<^verbatim>\<open>Dependencies: \<close> with no name, while a context without the dependencies field gets
  no such line; and \<open>gatherContext\<close> builds that empty object from a manifest that parses
  to an object without a \<^verbatim>\<open>dependencies\<close> key.
\<close>

theorem buildPrompt_empty_dependencies:
  "(dependencies ctx = Some d \<and> dependencies_map d = Some (JObj []) \<longrightarrow>
      buildPrompt tsk ctx =
        buildPrompt tsk (ctx\<lparr>dependencies := None\<rparr>) @ ''Dependencies: \<newline>\<newline>'')
   \<and> (dependencies ctx = None \<longrightarrow>
        buildPrompt tsk ctx =
          prompt_task tsk @ prompt_activeFile ctx @ prompt_techStack ctx)
   \<and> (option_set options includeDependencies \<and> rootPath ws = Some r \<and> r \<noteq> []
        \<and> path_join rt r ''package.json'' \<noteq> []
        \<and> readFile ws (path_join rt r ''package.json'') = Inr pkgContent
        \<and> JSON_parse rt pkgContent = Some (JObj kvs) \<and> map_of kvs ''dependencies'' = None \<longrightarrow>
        (\<exists>c d. gatherContext rt ws tsk options = Inr c \<and> dependencies c = Some d
           \<and> dependencies_map d = Some (JObj [])))"
proof (intro conjI impI)
  assume "dependencies ctx = Some d \<and> dependencies_map d = Some (JObj [])"
  then show "buildPrompt tsk ctx =
        buildPrompt tsk (ctx\<lparr>dependencies := None\<rparr>) @ ''Dependencies: \<newline>\<newline>''"
    using buildPrompt_split [of tsk ctx]
    by (simp add: prompt_dependencies_def Object_keys_def)
next
  assume "dependencies ctx = None"
  then show "buildPrompt tsk ctx =
          prompt_task tsk @ prompt_activeFile ctx @ prompt_techStack ctx"
    by (simp add: buildPrompt_def prompt_dependencies_def)
next
  assume a: "option_set options includeDependencies \<and> rootPath ws = Some r \<and> r \<noteq> []
        \<and> path_join rt r ''package.json'' \<noteq> []
        \<and> readFile ws (path_join rt r ''package.json'') = Inr pkgContent
        \<and> JSON_parse rt pkgContent = Some (JObj kvs) \<and> map_of kvs ''dependencies'' = None"
  let ?c0 = "\<lparr>workspaceRoot = rootPath ws, activeFile = None, workspaceStructure = None,
               techStack = None, dependencies = None\<rparr>"
  let ?c2 = "gather_workspaceStructure ws options (gather_activeFile ws options ?c0)"
  have r: "workspaceRoot ?c2 = Some r"
    using a by (simp add: gather_workspaceStructure_def gather_activeFile_def split: option.splits)
  have "\<exists>d. dependencies (gather_dependencies rt ws options ?c2) = Some d
           \<and> dependencies_map d = Some (JObj [])"
    using a r by (simp add: gather_dependencies_def Let_def js_get_def or_empty_def)
  then show "\<exists>c d. gatherContext rt ws tsk options = Inr c \<and> dependencies c = Some d
           \<and> dependencies_map d = Some (JObj [])"
    by (simp add: gatherContext_def)
qed

text \<open>The manifest \<^verbatim>\<open>{}\<close>: the gathered context makes the prompt end with the empty
  dependency line.\<close>

theorem buildPrompt_empty_dependencies_witness:
  "\<exists>c. gatherContext example_runtime (example_workspace ''{}'') ''t'' all_options = Inr c
     \<and> buildPrompt ''t'' c =
         buildPrompt ''t'' (c\<lparr>dependencies := None\<rparr>) @ ''Dependencies: \<newline>\<newline>''"
proof -
  let ?ws = "example_workspace ''{}''"
  have h: "option_set all_options includeDependencies \<and> rootPath ?ws = Some ''/w'' \<and> ''/w'' \<noteq> []
        \<and> path_join example_runtime ''/w'' ''package.json'' \<noteq> []
        \<and> readFile ?ws (path_join example_runtime ''/w'' ''package.json'') = Inr ''{}''
        \<and> JSON_parse example_runtime ''{}'' = Some (JObj []) \<and> map_of [] ''dependencies'' = None"
    by (simp add: option_set_def all_options_def example_workspace_def example_runtime_def)
  note t = buildPrompt_empty_dependencies
  from t [where options = all_options and ws = ?ws and r = "''/w''" and rt = example_runtime
            and pkgContent = "''{}''" and kvs = "[]" and tsk = "''t''"] h
  obtain c d where c: "gatherContext example_runtime ?ws ''t'' all_options = Inr c"
    and d: "dependencies c = Some d" "dependencies_map d = Some (JObj [])"
    by blast
  from t [where ctx = c and d = d and tsk = "''t''"] d
  have "buildPrompt ''t'' c =
         buildPrompt ''t'' (c\<lparr>dependencies := None\<rparr>) @ ''Dependencies: \<newline>\<newline>''"
    by blast
  with c show ?thesis by blast
qed

section \<open>The normalizer\<close>

text \<open>A plan returned for an object whose \<^verbatim>\<open>steps\<close> is an array has one step for each
  object-shaped element; a reply that is not an object, or has no \<^verbatim>\<open>steps\<close>, gives a
  draft plan without steps. A description that is an object with a \<^verbatim>\<open>toString\<close> key makes
  the normalizer throw, after it has drawn the identifiers of the plan and of the
  step.\<close>

lemma length_object_indices:
  "length (object_indices xs (length xs)) = length (filter object_shaped xs)"
proof -
  have "filter object_shaped xs = filter object_shaped (map ((!) xs) [0..<length xs])"
    by (simp add: map_nth)
  also have "\<dots> = map ((!) xs) (filter (object_shaped \<circ> (!) xs) [0..<length xs])"
    by (rule filter_map)
  finally show ?thesis by (simp add: object_indices_def comp_def)
qed

lemma parsePlanResponse_step_count:
  assumes "response = JObj kvs" "map_of kvs ''steps'' = Some (JArr xs)"
    and "parsePlanResponse rt orc tsk response st = Some (Inr p, st')"
  shows "length (steps p) = length (filter object_shaped xs)"
proof -
  from parsePlanResponse_array_returned [OF assms]
  have "length (map order (steps p)) = length (object_indices xs (length xs))" by simp
  then show ?thesis by (simp add: length_object_indices)
qed

lemma parsePlanResponse_no_steps:
  assumes "\<not> (object_shaped response \<and> js_in ''steps'' response)"
  shows "parsePlanResponse rt orc tsk response st =
     Some (Inr \<lparr>plan_id = ids orc (ids_used st), task = tsk, steps = [],
                createdAt = dates orc (dates_used st), status = Draft\<rparr>,
           st\<lparr>ids_used := Suc (ids_used st), dates_used := Suc (dates_used st)\<rparr>)"
  using assms by (auto simp: parsePlanResponse_def generateId_def new_Date_def)

lemma parsePlanResponse_description_throws:
  "parsePlanResponse rt orc tsk
     (JObj [(''steps'', JArr [JObj [(''description'', JObj [(''toString'', JNum (Fin 1))])]])]) st =
     Some (Inl (TypeError ''Cannot convert object to primitive value''),
           st\<lparr>ids_used := Suc (Suc (ids_used st)), dates_used := Suc (dates_used st)\<rparr>)"
proof -
  let ?xs = "[JObj [(''description'', JObj [(''toString'', JNum (Fin 1))])]]"
  have "[0..<length ?xs] = [0]" by simp
  then show ?thesis
    unfolding parsePlanResponse_array [OF refl, of "[(''steps'', JArr ?xs)]" ?xs, simplified]
    by (simp add: loop_body_def push_step_def object_shaped_def generateId_def
        step_description_def js_in_def js_get_def)
qed

text \<open>
  C1. The normalizer is specified never to raise, whatever the \<^verbatim>\<open>steps\<close> property holds,
  and to return a plan without steps when there is nothing to iterate. For the reply
  \<^verbatim>\<open>{"steps": null}\<close> the loop header reads \<^verbatim>\<open>length\<close> of \<^verbatim>\<open>null\<close>: \<open>parsePlanResponse\<close>
  throws a \<^verbatim>\<open>TypeError\<close>, after it has drawn the identifier and the date of the plan it
  does not return.
\<close>

theorem parsePlanResponse_steps_null_throws:
  "parsePlanResponse rt orc tsk (JObj [(''steps'', JNull)]) st =
     Some (Inl (TypeError ''Cannot read properties of null (reading length)''),
           st\<lparr>ids_used := Suc (ids_used st), dates_used := Suc (dates_used st)\<rparr>)"
  by (simp add: parsePlanResponse_def generateId_def new_Date_def js_in_def js_get_def
      object_shaped_def steps_loop.simps)

text \<open>
  C5. Whenever the normalizer returns a plan, its status is \<open>Active\<close> if the plan has
  steps and \<open>Draft\<close> if it has none. When the reply is an object whose \<^verbatim>\<open>steps\<close> is an
  array \<open>xs\<close> and the normalizer returns a plan, the \<^verbatim>\<open>order\<close> values of the steps are, in
  sequence, the indices of the object-shaped elements of \<open>xs\<close> (the loop counter, not a
  value of the element), and a step whose element has no \<^verbatim>\<open>description\<close> is described
  as \<^verbatim>\<open>Step\<close> followed by its index plus one. The normalizer does return a plan for such
  a reply when the descriptions are plain.
\<close>

theorem parsePlanResponse_order_description_status:
  "(\<forall>p st'. parsePlanResponse rt orc tsk response st = Some (Inr p, st') \<longrightarrow>
      status p = (if steps p = [] then Draft else Active))
   \<and> (\<forall>kvs xs p st'.
        response = JObj kvs \<and> map_of kvs ''steps'' = Some (JArr xs)
        \<and> parsePlanResponse rt orc tsk response st = Some (Inr p, st') \<longrightarrow>
        map order (steps p) = filter (\<lambda>i. object_shaped (xs ! i)) [0..<length xs]
        \<and> (\<forall>s \<in> set (steps p).
              \<not> js_in ''description'' (xs ! order s) \<longrightarrow>
              description s = ''Step '' @ dec (order s + 1)))
   \<and> (\<forall>kvs xs.
        response = JObj kvs \<and> map_of kvs ''steps'' = Some (JArr xs) \<and> plain_descriptions xs \<longrightarrow>
        (\<exists>p st'. parsePlanResponse rt orc tsk response st = Some (Inr p, st')))"
proof (intro conjI allI impI)
  fix p st'
  assume "parsePlanResponse rt orc tsk response st = Some (Inr p, st')"
  then show "status p = (if steps p = [] then Draft else Active)"
    by (rule status_of_steps)
next
  fix kvs xs p st'
  assume h: "response = JObj kvs \<and> map_of kvs ''steps'' = Some (JArr xs)
        \<and> parsePlanResponse rt orc tsk response st = Some (Inr p, st')"
  note r = parsePlanResponse_array_returned
             [OF conjunct1 [OF h] conjunct1 [OF conjunct2 [OF h]] conjunct2 [OF conjunct2 [OF h]]]
  from r show "map order (steps p) = filter (\<lambda>i. object_shaped (xs ! i)) [0..<length xs]"
    by (simp add: object_indices_def)
  show "\<forall>s \<in> set (steps p). \<not> js_in ''description'' (xs ! order s) \<longrightarrow>
          description s = ''Step '' @ dec (order s + 1)"
  proof (intro ballI impI)
    fix s
    assume s: "s \<in> set (steps p)" and n: "\<not> js_in ''description'' (xs ! order s)"
    from conjunct2 [OF r] s
    have "step_description rt (order s) (xs ! order s) = Inr (description s)" by simp
    with n show "description s = ''Step '' @ dec (order s + 1)"
      by (simp add: step_description_def)
  qed
next
  fix kvs xs
  assume h: "response = JObj kvs \<and> map_of kvs ''steps'' = Some (JArr xs) \<and> plain_descriptions xs"
  show "\<exists>p st'. parsePlanResponse rt orc tsk response st = Some (Inr p, st')"
    by (rule parsePlanResponse_array_returns
          [OF conjunct1 [OF h] conjunct1 [OF conjunct2 [OF h]] conjunct2 [OF conjunct2 [OF h]]])
qed

text \<open>The reply \<^verbatim>\<open>{"steps": [{}, {}, {}]}\<close>: orders 0, 1, 2, the default descriptions,
  and an active plan.\<close>

theorem parsePlanResponse_order_description_status_witness:
  "\<exists>p st'. parsePlanResponse example_runtime example_oracle ''t''
              (JObj [(''steps'', JArr [JObj [], JObj [], JObj []])]) initial_state
            = Some (Inr p, st')
     \<and> map order (steps p) = [0, 1, 2]
     \<and> (\<forall>s \<in> set (steps p). description s = ''Step '' @ dec (order s + 1))
     \<and> status p = Active"
proof -
  let ?xs = "[JObj [], JObj [], JObj []]"
  let ?kvs = "[(''steps'', JArr ?xs)]"
  let ?r = "JObj ?kvs"
  note t = parsePlanResponse_order_description_status
             [of example_runtime example_oracle "''t''" ?r initial_state]
  have plain: "plain_descriptions ?xs"
    by (simp add: plain_descriptions_def js_get_def)
  note status = conjunct1 [OF t, rule_format]
  note returned = conjunct1 [OF conjunct2 [OF t], rule_format, of ?kvs ?xs]
  note returns = conjunct2 [OF conjunct2 [OF t], rule_format, of ?kvs ?xs]
  have kv: "map_of ?kvs ''steps'' = Some (JArr ?xs)" by simp
  from returns [OF conjI [OF refl conjI [OF kv plain]]] obtain p st' where
    p: "parsePlanResponse example_runtime example_oracle ''t'' ?r initial_state = Some (Inr p, st')"
    by auto
  note rp = returned [OF conjI [OF refl conjI [OF kv p]]]
  have o: "map order (steps p) = filter (\<lambda>i. object_shaped (?xs ! i)) [0..<length ?xs]"
    by (rule conjunct1 [OF rp])
  have d: "\<forall>s \<in> set (steps p). \<not> js_in ''description'' (?xs ! order s) \<longrightarrow>
                 description s = ''Step '' @ dec (order s + 1)"
    by (rule conjunct2 [OF rp])
  have upt3: "[0..<3] = [0, 1, 2]" by (simp add: upt_rec)
  have o': "map order (steps p) = [0, 1, 2]"
    using o by (simp add: upt3 object_shaped_def)
  have "\<forall>i < 3. \<not> js_in ''description'' (?xs ! i)"
    by (auto simp: js_in_def js_get_def less_Suc_eq numeral_3_eq_3)
  moreover have "\<forall>s \<in> set (steps p). order s < 3"
  proof
    fix s assume "s \<in> set (steps p)"
    then have "order s \<in> set (map order (steps p))" by simp
    then show "order s < 3" unfolding o' by auto
  qed
  ultimately have d': "\<forall>s \<in> set (steps p). description s = ''Step '' @ dec (order s + 1)"
    using d by blast
  from status [OF p] have "status p = (if steps p = [] then Draft else Active)" .
  moreover have "steps p \<noteq> []" using o' by auto
  ultimately have "status p = Active" by simp
  with p o' d' show ?thesis by (intro exI [of _ p] exI [of _ st'] conjI)
qed

text \<open>
  C9. In a reply whose \<^verbatim>\<open>steps\<close> is an array \<open>xs\<close>, an element that is itself an array
  is object-shaped. In every plan the normalizer returns, it has produced a step with
  the default description, no files and its index as order (an array built by
  \<^verbatim>\<open>JSON.parse\<close> has neither a \<^verbatim>\<open>description\<close> nor a \<^verbatim>\<open>files\<close> property), while an element
  that is \<^verbatim>\<open>null\<close>, a string or a number has produced no step. The normalizer returns a
  plan when the descriptions are plain. The pass of the loop on an array element never
  throws: it pushes that step.
\<close>

theorem array_element_is_step:
  "response = JObj kvs \<Longrightarrow> map_of kvs ''steps'' = Some (JArr xs) \<Longrightarrow> i < length xs \<Longrightarrow>
   (\<forall>p st'. parsePlanResponse rt orc tsk response st = Some (Inr p, st') \<longrightarrow>
      (\<forall>ys. xs ! i = JArr ys \<longrightarrow>
         (\<exists>ident. \<lparr>step_id = ident, description = ''Step '' @ dec (i + 1), files = [],
                    order = i\<rparr> \<in> set (steps p)))
      \<and> (xs ! i = JNull \<or> (\<exists>s. xs ! i = JStr s) \<or> (\<exists>n. xs ! i = JNum n) \<longrightarrow>
           i \<notin> order ` set (steps p)))
   \<and> (plain_descriptions xs \<longrightarrow>
        (\<exists>p st'. parsePlanResponse rt orc tsk response st = Some (Inr p, st')))
   \<and> (\<forall>ys stps s.
        push_step rt orc i (Some (JArr ys)) (stps, s) =
          (Inr (stps @ [\<lparr>step_id = ids orc (ids_used s),
                          description = ''Step '' @ dec (i + 1), files = [], order = i\<rparr>]),
           s\<lparr>ids_used := Suc (ids_used s)\<rparr>))"
proof -
  assume a: "response = JObj kvs" "map_of kvs ''steps'' = Some (JArr xs)" and i: "i < length xs"
  have arr_desc: "step_description rt i (JArr ys) = Inr (''Step '' @ dec (i + 1))" for ys
    by (simp add: step_description_def js_in_def js_get_array_description)
  have arr_files: "step_files (JArr ys) = []" for ys
    by (simp add: step_files_def js_in_def js_get_array_files)
  have returned: "(\<forall>ys. xs ! i = JArr ys \<longrightarrow>
         (\<exists>ident. \<lparr>step_id = ident, description = ''Step '' @ dec (i + 1), files = [],
                    order = i\<rparr> \<in> set (steps p)))
      \<and> (xs ! i = JNull \<or> (\<exists>s. xs ! i = JStr s) \<or> (\<exists>n. xs ! i = JNum n) \<longrightarrow>
           i \<notin> order ` set (steps p))"
    if p: "parsePlanResponse rt orc tsk response st = Some (Inr p, st')" for p st'
  proof (intro conjI allI impI)
    note r = parsePlanResponse_array_returned [OF a p]
    fix ys
    assume arr: "xs ! i = JArr ys"
    then have "i \<in> set (object_indices xs (length xs))"
      using i by (simp add: object_indices_def object_shaped_def)
    with r have "i \<in> set (map order (steps p))" by simp
    then obtain s where s: "s \<in> set (steps p)" "order s = i" by auto
    with r arr have "Inr (description s) = (Inr (''Step '' @ dec (i + 1)) :: thrown + string)"
      and "files s = []"
      using arr_desc [of ys] arr_files [of ys] by auto
    then have "s = \<lparr>step_id = step_id s, description = ''Step '' @ dec (i + 1), files = [],
                     order = i\<rparr>"
      using s(2) by simp
    with s(1) show "\<exists>ident. \<lparr>step_id = ident, description = ''Step '' @ dec (i + 1),
                              files = [], order = i\<rparr> \<in> set (steps p)"
      by metis
  next
    note r = parsePlanResponse_array_returned [OF a p]
    assume "xs ! i = JNull \<or> (\<exists>s. xs ! i = JStr s) \<or> (\<exists>n. xs ! i = JNum n)"
    then have "\<not> object_shaped (xs ! i)" by (auto simp: object_shaped_def)
    then have "i \<notin> set (object_indices xs (length xs))" by (simp add: object_indices_def)
    with r have "i \<notin> set (map order (steps p))" by simp
    then show "i \<notin> order ` set (steps p)" by simp
  qed
  have body: "push_step rt orc i (Some (JArr ys)) (stps, s) =
          (Inr (stps @ [\<lparr>step_id = ids orc (ids_used s),
                          description = ''Step '' @ dec (i + 1), files = [], order = i\<rparr>]),
           s\<lparr>ids_used := Suc (ids_used s)\<rparr>)" for ys stps s
    by (simp add: push_step_def object_shaped_def generateId_def arr_desc arr_files)
  have returns: "plain_descriptions xs \<longrightarrow>
        (\<exists>p st'. parsePlanResponse rt orc tsk response st = Some (Inr p, st'))"
    using parsePlanResponse_array_returns [OF a] by simp
  from returned have "\<forall>p st'. parsePlanResponse rt orc tsk response st = Some (Inr p, st') \<longrightarrow>
      (\<forall>ys. xs ! i = JArr ys \<longrightarrow>
         (\<exists>ident. \<lparr>step_id = ident, description = ''Step '' @ dec (i + 1), files = [],
                    order = i\<rparr> \<in> set (steps p)))
      \<and> (xs ! i = JNull \<or> (\<exists>s. xs ! i = JStr s) \<or> (\<exists>n. xs ! i = JNum n) \<longrightarrow>
           i \<notin> order ` set (steps p))"
    by (intro allI impI)
  moreover note returns
  moreover have "\<forall>ys stps s.
        push_step rt orc i (Some (JArr ys)) (stps, s) =
          (Inr (stps @ [\<lparr>step_id = ids orc (ids_used s),
                          description = ''Step '' @ dec (i + 1), files = [], order = i\<rparr>]),
           s\<lparr>ids_used := Suc (ids_used s)\<rparr>)"
    by (intro allI) (rule body)
  ultimately show ?thesis by (rule conjI [OF _ conjI])
qed

text \<open>The reply \<^verbatim>\<open>{"steps": [[], "x"]}\<close>: the empty array becomes the step \<^verbatim>\<open>Step 1\<close>
  and the string at index 1 becomes no step.\<close>

theorem array_element_is_step_witness:
  "\<exists>p st'. parsePlanResponse example_runtime example_oracle ''t''
              (JObj [(''steps'', JArr [JArr [], JStr ''x''])]) initial_state = Some (Inr p, st')
     \<and> (\<exists>ident. \<lparr>step_id = ident, description = ''Step 1'', files = [], order = 0\<rparr>
                   \<in> set (steps p))
     \<and> 1 \<notin> order ` set (steps p)"
proof -
  let ?xs = "[JArr [], JStr ''x'']"
  let ?kvs = "[(''steps'', JArr ?xs)]"
  have kv: "map_of ?kvs ''steps'' = Some (JArr ?xs)" by simp
  have plain: "plain_descriptions ?xs"
    by (simp add: plain_descriptions_def js_get_array_description object_shaped_def)
  note t0 = array_element_is_step
              [OF refl kv, of 0 example_runtime example_oracle "''t''" initial_state]
  note t1 = array_element_is_step
              [OF refl kv, of 1 example_runtime example_oracle "''t''" initial_state]
  from t0 plain obtain p st' where
    p: "parsePlanResponse example_runtime example_oracle ''t'' (JObj ?kvs) initial_state
          = Some (Inr p, st')"
    by auto
  from t0 p have "\<exists>ident. \<lparr>step_id = ident, description = ''Step '' @ dec (0 + 1), files = [],
                             order = 0\<rparr> \<in> set (steps p)"
    by auto
  then have s0: "\<exists>ident. \<lparr>step_id = ident, description = ''Step 1'', files = [], order = 0\<rparr>
                   \<in> set (steps p)"
    by (simp add: dec.simps)
  from t1 p have "1 \<notin> order ` set (steps p)" by auto
  with p s0 show ?thesis by (intro exI [of _ p] exI [of _ st'] conjI)
qed

section \<open>The orchestrator\<close>

lemma parsePlanResponse_not_Failed:
  assumes "parsePlanResponse rt orc tsk response st = Some (Inr p, s)"
  shows "status p \<noteq> Failed"
  using status_of_steps [OF assms] by (simp split: if_splits)

lemma generatePlan_try_not_Failed:
  assumes "generatePlan_try rt orc ws create tsk options st = Some (Inr p, s)"
  shows "status p \<noteq> Failed"
  using assms parsePlanResponse_not_Failed
  by (auto simp: generatePlan_try_def Let_def split: sum.splits)

text \<open>
  C2. \<open>generatePlan\<close> never ends with an exception. Whenever its \<^verbatim>\<open>try\<close> block raises,
  leaving the state \<open>s\<close>, it returns the plan with the next identifier, the task as
  given, no steps, the next date and the status \<open>Failed\<close>. The block raises when the
  completion client raises and when the normalizer raises. Every plan it returns with
  the status \<open>Failed\<close> has no steps.
\<close>

theorem generatePlan_never_raises:
  "(\<forall>e s. generatePlan rt orc ws create tsk options st \<noteq> Some (Inl e, s))
   \<and> (\<forall>e s. generatePlan_try rt orc ws create tsk options st = Some (Inl e, s) \<longrightarrow>
        generatePlan rt orc ws create tsk options st =
          Some (Inr \<lparr>plan_id = ids orc (ids_used s), task = tsk, steps = [],
                     createdAt = dates orc (dates_used s), status = Failed\<rparr>,
                s\<lparr>ids_used := Suc (ids_used s), dates_used := Suc (dates_used s)\<rparr>))
   \<and> (\<forall>c e. gatherContext rt ws tsk options = Inr c \<longrightarrow>
        ai_generatePlan rt (create (buildPrompt tsk c)) = Inl e \<longrightarrow>
        generatePlan_try rt orc ws create tsk options st = Some (Inl e, st))
   \<and> (\<forall>c response e s. gatherContext rt ws tsk options = Inr c \<longrightarrow>
        ai_generatePlan rt (create (buildPrompt tsk c)) = Inr response \<longrightarrow>
        parsePlanResponse rt orc tsk response st = Some (Inl e, s) \<longrightarrow>
        generatePlan_try rt orc ws create tsk options st = Some (Inl e, s))
   \<and> (\<forall>p s. generatePlan rt orc ws create tsk options st = Some (Inr p, s) \<longrightarrow>
        status p = Failed \<longrightarrow> steps p = [])"
proof (intro conjI allI impI)
  fix e s
  show "generatePlan rt orc ws create tsk options st \<noteq> Some (Inl e, s)"
    by (auto simp: generatePlan_def failed_plan_def generateId_def new_Date_def
        split: option.splits sum.splits prod.splits)
next
  fix e s
  assume "generatePlan_try rt orc ws create tsk options st = Some (Inl e, s)"
  then show "generatePlan rt orc ws create tsk options st =
          Some (Inr \<lparr>plan_id = ids orc (ids_used s), task = tsk, steps = [],
                     createdAt = dates orc (dates_used s), status = Failed\<rparr>,
                s\<lparr>ids_used := Suc (ids_used s), dates_used := Suc (dates_used s)\<rparr>)"
    by (simp add: generatePlan_def failed_plan_def generateId_def new_Date_def)
next
  fix c e
  assume "gatherContext rt ws tsk options = Inr c"
    "ai_generatePlan rt (create (buildPrompt tsk c)) = Inl e"
  then show "generatePlan_try rt orc ws create tsk options st = Some (Inl e, st)"
    by (simp add: generatePlan_try_def)
next
  fix c response e s
  assume "gatherContext rt ws tsk options = Inr c"
    "ai_generatePlan rt (create (buildPrompt tsk c)) = Inr response"
    "parsePlanResponse rt orc tsk response st = Some (Inl e, s)"
  then show "generatePlan_try rt orc ws create tsk options st = Some (Inl e, s)"
    by (simp add: generatePlan_try_def)
next
  fix p s
  assume g: "generatePlan rt orc ws create tsk options st = Some (Inr p, s)"
    and f: "status p = Failed"
  show "steps p = []"
  proof (cases "generatePlan_try rt orc ws create tsk options st")
    case None
    with g show ?thesis by (simp add: generatePlan_def)
  next
    case (Some r)
    obtain res s1 where r: "r = (res, s1)" by (cases r)
    show ?thesis
    proof (cases res)
      case (Inl e)
      with Some r g show ?thesis
        by (auto simp: generatePlan_def failed_plan_def generateId_def new_Date_def)
    next
      case (Inr q)
      with Some r g have "q = p" by (simp add: generatePlan_def)
      with Some r Inr generatePlan_try_not_Failed f show ?thesis by blast
    qed
  qed
qed

text \<open>A rate-limited request, and a reply \<^verbatim>\<open>{"steps": null}\<close> on which the normalizer
  throws after it has drawn one identifier and one date.\<close>

theorem generatePlan_never_raises_witness:
  \<open>generatePlan example_runtime example_oracle (example_workspace ''{}'') rate_limited ''t'' all_options
     initial_state =
     Some (Inr \<lparr>plan_id = ''id0'', task = ''t'', steps = [], createdAt = 1000, status = Failed\<rparr>,
           \<lparr>ids_used = 1, dates_used = 1\<rparr>)
   \<and> generatePlan example_runtime example_oracle (example_workspace ''{}'') (replies ''{"steps": null}'') ''t''
       all_options initial_state =
     Some (Inr \<lparr>plan_id = ''id1'', task = ''t'', steps = [], createdAt = 1001, status = Failed\<rparr>,
           \<lparr>ids_used = 2, dates_used = 2\<rparr>)\<close>
proof
  let ?ws = "example_workspace ''{}''"
  obtain c where c: "gatherContext example_runtime ?ws ''t'' all_options = Inr c"
    by (simp add: gatherContext_def)
  let ?e = "AIError ''Rate limit exceeded. Please wait a moment and try again.''
              (Some ''RATE_LIMIT'') Rate_limit
              (Some (APIError (Some 429) ''Too Many Requests'' None))"
  have a: "ai_generatePlan example_runtime (rate_limited (buildPrompt ''t'' c)) = Inl ?e"
    by (simp add: ai_generatePlan_def ai_try_def rate_limited_def)
  note t = generatePlan_never_raises
             [of example_runtime example_oracle ?ws rate_limited "''t''" all_options initial_state]
  from t c a have "generatePlan_try example_runtime example_oracle ?ws rate_limited ''t'' all_options
      initial_state = Some (Inl ?e, initial_state)"
    by blast
  with t have "generatePlan example_runtime example_oracle ?ws rate_limited ''t'' all_options initial_state =
     Some (Inr \<lparr>plan_id = ids example_oracle (ids_used initial_state), task = ''t'', steps = [],
                createdAt = dates example_oracle (dates_used initial_state), status = Failed\<rparr>,
           initial_state\<lparr>ids_used := Suc (ids_used initial_state),
                         dates_used := Suc (dates_used initial_state)\<rparr>)"
    by blast
  then show "generatePlan example_runtime example_oracle ?ws rate_limited ''t'' all_options initial_state =
     Some (Inr \<lparr>plan_id = ''id0'', task = ''t'', steps = [], createdAt = 1000, status = Failed\<rparr>,
           \<lparr>ids_used = 1, dates_used = 1\<rparr>)"
    by (simp add: example_oracle_def initial_state_def dec.simps)
next
  let ?ws = "example_workspace ''{}''"
  let ?create = \<open>replies ''{"steps": null}''\<close>
  let ?s1 = "\<lparr>ids_used = 1, dates_used = 1\<rparr>"
  obtain c where c: "gatherContext example_runtime ?ws ''t'' all_options = Inr c"
    by (simp add: gatherContext_def)
  have a: "ai_generatePlan example_runtime (?create (buildPrompt ''t'' c)) = Inr (JObj [(''steps'', JNull)])"
    by (simp add: ai_generatePlan_def ai_try_def replies_def first_content_def example_runtime_def)
  have p: "parsePlanResponse example_runtime example_oracle ''t'' (JObj [(''steps'', JNull)]) initial_state =
     Some (Inl (TypeError ''Cannot read properties of null (reading length)''), ?s1)"
    by (simp add: parsePlanResponse_def generateId_def new_Date_def js_in_def js_get_def
        object_shaped_def steps_loop.simps initial_state_def)
  note t = generatePlan_never_raises
             [of example_runtime example_oracle ?ws ?create "''t''" all_options initial_state]
  from t c a p have "generatePlan_try example_runtime example_oracle ?ws ?create ''t'' all_options
      initial_state = Some (Inl (TypeError ''Cannot read properties of null (reading length)''), ?s1)"
    by blast
  with t have "generatePlan example_runtime example_oracle ?ws ?create ''t'' all_options initial_state =
     Some (Inr \<lparr>plan_id = ids example_oracle (ids_used ?s1), task = ''t'', steps = [],
                createdAt = dates example_oracle (dates_used ?s1), status = Failed\<rparr>,
           ?s1\<lparr>ids_used := Suc (ids_used ?s1), dates_used := Suc (dates_used ?s1)\<rparr>)"
    by blast
  then show "generatePlan example_runtime example_oracle ?ws ?create ''t'' all_options initial_state =
     Some (Inr \<lparr>plan_id = ''id1'', task = ''t'', steps = [], createdAt = 1001, status = Failed\<rparr>,
           \<lparr>ids_used = 2, dates_used = 2\<rparr>)"
    by (simp add: example_oracle_def dec.simps)
qed

end
